theory Spec2Isabelle
  imports Complex_Main
begin

section \<open>The shader gallery: data model\<close>

text \<open>
  The repository is a React page that renders one of five GLSL fragment shaders on a
  WebGL2 canvas. This theory embeds the rendering core:
  \<^item> \<^verbatim>\<open>src/lib/webgl-utils.ts\<close>: \<open>compileShader\<close>, \<open>createProgram\<close>,
    \<open>createFullscreenQuad\<close>, \<open>setUniform\<close>;
  \<^item> the shader catalogue (\<open>SHADERS\<close>, \<open>getShaderById\<close>, \<open>getDefaultUniforms\<close>);
  \<^item> the \<open>ShaderCanvas\<close> component: \<open>lerp\<close>, the frame-rate monitor, \<open>initShader\<close>,
    the pointer handlers, the frame callback \<open>render\<close>, and its effects;
  \<^item> the page's \<open>handleShaderSelect\<close>, \<open>handleUniformChange\<close>, \<open>handleResetDefaults\<close>.

  Conventions of the embedding.
  \<^item> A JavaScript \<open>number\<close> is a \<open>real\<close>: arithmetic is exact, rounding of IEEE doubles
    is not modelled.
  \<^item> A \<open>Record<string, number>\<close> is an association list with distinct keys in insertion
    order, which is the order \<open>Object.entries\<close> enumerates (uniform names are GLSL
    identifiers, never integer-like keys).
  \<^item> A WebGL object (shader, program, vertex array, buffer) is a handle, a natural number
    drawn from a counter, so that two objects created by different calls differ.
  \<^item> Every call the code makes on the WebGL context is appended to a log, in order. What
    the device answers (does a stage compile, does the program link, is a uniform active)
    is not decided by the code; it is a parameter, the record \<open>host\<close>.
  \<^item> \<open>console.error\<close> and the \<open>onError\<close> callback append to logs of their own.
\<close>

type_synonym handle = nat

datatype stage = VERTEX_SHADER | FRAGMENT_SHADER

text \<open>\<open>UniformType\<close> of webgl-utils.ts, and the \<open>type\<close> field of a \<open>ShaderUniform\<close>.\<close>

datatype UniformType = UFloat | UInt | UVec2 | UVec3 | UVec4

datatype NumericKind = KFloat | KInt

text \<open>The value handed to \<open>setUniform\<close>: \<open>number | number[]\<close>.\<close>

datatype uniform_value = Num real | Arr "real list"

datatype gl_call =
    CreateShader stage "handle option"
  | ShaderSource handle string
  | CompileShader handle
  | DeleteShader handle
  | CreateProgram "handle option"
  | AttachShader handle handle
  | LinkProgram handle
  | DeleteProgram handle
  | CreateVertexArray "handle option"
  | BindVertexArray "handle option"
  | CreateBuffer handle
  | BindBuffer handle
  | BufferData "real list"
  | EnableVertexAttribArray nat
  | VertexAttribPointer nat nat
  | DeleteVertexArray handle
  | Viewport real real real real
  | ClearColor real real real real
  | Clear
  | UseProgram handle
  | Uniform1f string uniform_value
  | Uniform1i string uniform_value
  | Uniform2fv string uniform_value
  | Uniform3fv string uniform_value
  | Uniform4fv string uniform_value
  | DrawArrays nat nat

record ShaderUniform =
  uname :: string
  ulabel :: string
  utype :: NumericKind
  umin :: real
  umax :: real
  ustep :: real
  defaultValue :: real

record ShaderDefinition =
  sid :: string
  sname :: string
  description :: string
  fragmentSource :: string
  suniforms :: "ShaderUniform list"

text \<open>
  The answers of the browser and of the GPU driver. \<open>compile_log t src = None\<close> means that
  \<open>COMPILE_STATUS\<close> is true; \<open>Some info\<close> means that it is false and that
  \<open>getShaderInfoLog\<close> returns \<open>info\<close>. \<open>link_log\<close> is the same for \<open>LINK_STATUS\<close>.
  The \<open>*_alloc\<close> fields say whether the \<open>create*\<close> call returns an object (it returns
  null on a lost context). \<open>uniform_active p n\<close> says whether \<open>getUniformLocation\<close>
  finds the uniform \<open>n\<close> in program \<open>p\<close>. \<open>parent_rect\<close> is the width and height of the
  bounding rectangle of the canvas's parent element, if it has one.
\<close>

record host =
  context_ok :: bool
  shader_alloc :: "stage \<Rightarrow> bool"
  compile_log :: "stage \<Rightarrow> string \<Rightarrow> string option"
  program_alloc :: bool
  link_log :: "handle \<Rightarrow> handle \<Rightarrow> string option"
  vao_alloc :: bool
  uniform_active :: "handle \<Rightarrow> string \<Rightarrow> bool"
  parent_rect :: "(real \<times> real) option"

record FPSMonitor =
  samples :: "real list"
  lastTime :: real
  currentFPS :: real

text \<open>
  The mutable state of one mounted \<open>ShaderCanvas\<close>: its refs, what its mount effect left
  behind (the pending frame request, the listeners, the overlay canvas), the size of the
  canvas, and the logs.
\<close>

record session =
  glRef :: bool
  programRef :: "handle option"
  vaoRef :: "handle option"
  frameScheduled :: bool
  startTime :: real
  fpsMonitor :: FPSMonitor
  hasError :: bool
  targetMouse :: "real \<times> real"
  currentMouse :: "real \<times> real"
  uniformsRef :: "(string \<times> real) list"
  showDebugRef :: bool
  depShaderId :: string
  cleanupRegistered :: bool
  debugCanvas :: bool
  listening :: bool
  observing :: bool
  canvasSize :: "nat \<times> nat"
  next_handle :: handle
  calls :: "gl_call list"
  console :: "string list list"
  onErrorCalls :: "string list"
  overlay :: "(string \<times> real) list"

definition gl :: "gl_call list \<Rightarrow> session \<Rightarrow> session" where
  "gl cs s = s\<lparr>calls := calls s @ cs\<rparr>"

definition console_error :: "string list \<Rightarrow> session \<Rightarrow> session" where
  "console_error args s = s\<lparr>console := console s @ [args]\<rparr>"

text \<open>The calls a step added to the log.\<close>

definition emitted :: "session \<Rightarrow> session \<Rightarrow> gl_call list" where
  "emitted s s' = drop (length (calls s)) (calls s')"

section \<open>webgl-utils.ts: building a program\<close>

definition nl :: string where
  "nl = [CHR 0x0A]"

definition VERTEX_SHADER_SOURCE :: string where
  "VERTEX_SHADER_SOURCE =
     ''#version 300 es'' @ nl @
     ''precision highp float;'' @ nl @ nl @
     ''in vec2 a_position;'' @ nl @ nl @
     ''out vec2 v_uv;'' @ nl @ nl @
     ''void main() {'' @ nl @
     ''  v_uv = a_position * 0.5 + 0.5;'' @ nl @
     ''  gl_Position = vec4(a_position, 0.0, 1.0);'' @ nl @
     ''}'' @ nl"

definition compileShader :: "host \<Rightarrow> stage \<Rightarrow> string \<Rightarrow> session \<Rightarrow> handle option \<times> session" where
  "compileShader h ty source s =
     (if \<not> shader_alloc h ty then
        (None, console_error [''Failed to create shader''] (gl [CreateShader ty None] s))
      else
        let shader = next_handle s;
            s1 = gl [CreateShader ty (Some shader), ShaderSource shader source, CompileShader shader]
                   (s\<lparr>next_handle := Suc shader\<rparr>)
        in case compile_log h ty source of
             Some info \<Rightarrow>
               (None, gl [DeleteShader shader] (console_error [''Shader compilation error:'', info] s1))
           | None \<Rightarrow> (Some shader, s1))"

definition createProgram :: "host \<Rightarrow> handle \<Rightarrow> handle \<Rightarrow> session \<Rightarrow> handle option \<times> session" where
  "createProgram h vertexShader fragmentShader s =
     (if \<not> program_alloc h then
        (None, console_error [''Failed to create program''] (gl [CreateProgram None] s))
      else
        let program = next_handle s;
            s1 = gl [CreateProgram (Some program), AttachShader program vertexShader,
                     AttachShader program fragmentShader, LinkProgram program]
                   (s\<lparr>next_handle := Suc program\<rparr>)
        in case link_log h vertexShader fragmentShader of
             Some info \<Rightarrow>
               (None, gl [DeleteProgram program] (console_error [''Program link error:'', info] s1))
           | None \<Rightarrow> (Some program, s1))"

section \<open>The shader catalogue\<close>

text \<open>
  The five definitions of \<open>SHADERS\<close>, with their parameter descriptors as in the source.
  The GLSL text of a fragment stage is never inspected by the TypeScript code, it is only
  handed to the compiler of the device; each \<open>fragmentSource\<close> stands here as a short
  tag for that text.
\<close>

definition plasmaShader :: ShaderDefinition where
  "plasmaShader =
     \<lparr>sid = ''plasma'', sname = ''Plasma Waves'',
      description = ''Classic plasma effect using layered sine waves with vibrant site colors'',
      fragmentSource = ''plasma.frag'',
      suniforms =
        [\<lparr>uname = ''u_speed'', ulabel = ''Speed'', utype = KFloat,
           umin = 0.5, umax = 2, ustep = 0.1, defaultValue = 1\<rparr>,
         \<lparr>uname = ''u_scale'', ulabel = ''Scale'', utype = KFloat,
           umin = 1, umax = 10, ustep = 0.5, defaultValue = 4\<rparr>,
         \<lparr>uname = ''u_colorShift'', ulabel = ''Color Shift'', utype = KFloat,
           umin = 0, umax = 1, ustep = 0.05, defaultValue = 0.5\<rparr>]\<rparr>"

definition sphereShader :: ShaderDefinition where
  "sphereShader =
     \<lparr>sid = ''sphere'', sname = ''Raymarched Sphere'',
      description = ''SDF sphere with phong lighting and soft shadows using raymarching'',
      fragmentSource = ''sphere.frag'',
      suniforms =
        [\<lparr>uname = ''u_rotationSpeed'', ulabel = ''Rotation Speed'', utype = KFloat,
           umin = 0, umax = 2, ustep = 0.1, defaultValue = 0.5\<rparr>,
         \<lparr>uname = ''u_glossiness'', ulabel = ''Glossiness'', utype = KFloat,
           umin = 0.1, umax = 1, ustep = 0.05, defaultValue = 0.5\<rparr>,
         \<lparr>uname = ''u_sphereScale'', ulabel = ''Sphere Scale'', utype = KFloat,
           umin = 0.5, umax = 1.5, ustep = 0.1, defaultValue = 1\<rparr>]\<rparr>"

definition noiseShader :: ShaderDefinition where
  "noiseShader =
     \<lparr>sid = ''noise'', sname = ''Fractal Noise'',
      description = ''Layered simplex noise creating organic, flowing patterns'',
      fragmentSource = ''noise.frag'',
      suniforms =
        [\<lparr>uname = ''u_octaves'', ulabel = ''Octaves'', utype = KInt,
           umin = 1, umax = 6, ustep = 1, defaultValue = 4\<rparr>,
         \<lparr>uname = ''u_persistence'', ulabel = ''Persistence'', utype = KFloat,
           umin = 0.3, umax = 0.7, ustep = 0.05, defaultValue = 0.5\<rparr>,
         \<lparr>uname = ''u_zoom'', ulabel = ''Zoom'', utype = KFloat,
           umin = 1, umax = 5, ustep = 0.25, defaultValue = 2\<rparr>]\<rparr>"

definition kaleidoscopeShader :: ShaderDefinition where
  "kaleidoscopeShader =
     \<lparr>sid = ''kaleidoscope'', sname = ''Kaleidoscope'',
      description =
        ''Radial symmetry with rotating procedural patterns creating mandala-like visuals'',
      fragmentSource = ''kaleidoscope.frag'',
      suniforms =
        [\<lparr>uname = ''u_segments'', ulabel = ''Segments'', utype = KInt,
           umin = 4, umax = 16, ustep = 1, defaultValue = 8\<rparr>,
         \<lparr>uname = ''u_rotationSpeed'', ulabel = ''Rotation Speed'', utype = KFloat,
           umin = 0, umax = 2, ustep = 0.1, defaultValue = 0.5\<rparr>,
         \<lparr>uname = ''u_zoom'', ulabel = ''Zoom'', utype = KFloat,
           umin = 0.5, umax = 3, ustep = 0.1, defaultValue = 1.5\<rparr>]\<rparr>"

definition auroraShader :: ShaderDefinition where
  "auroraShader =
     \<lparr>sid = ''aurora'', sname = ''Aurora Borealis'',
      description = ''Flowing curtains of light resembling the northern lights'',
      fragmentSource = ''aurora.frag'',
      suniforms =
        [\<lparr>uname = ''u_intensity'', ulabel = ''Intensity'', utype = KFloat,
           umin = 0.5, umax = 2, ustep = 0.1, defaultValue = 1\<rparr>,
         \<lparr>uname = ''u_speed'', ulabel = ''Speed'', utype = KFloat,
           umin = 0.5, umax = 2, ustep = 0.1, defaultValue = 1\<rparr>,
         \<lparr>uname = ''u_waveHeight'', ulabel = ''Wave Height'', utype = KFloat,
           umin = 0.3, umax = 1, ustep = 0.05, defaultValue = 0.6\<rparr>]\<rparr>"

definition SHADERS :: "ShaderDefinition list" where
  "SHADERS = [plasmaShader, sphereShader, noiseShader, kaleidoscopeShader, auroraShader]"

definition getShaderById :: "string \<Rightarrow> ShaderDefinition option" where
  "getShaderById ident = find (\<lambda>shader. sid shader = ident) SHADERS"

text \<open>\<open>obj[k] = v\<close> on a JavaScript object: an existing key keeps its place, a new one
  goes last.\<close>

fun set_key :: "string \<Rightarrow> real \<Rightarrow> (string \<times> real) list \<Rightarrow> (string \<times> real) list" where
  "set_key k v [] = [(k, v)]"
| "set_key k v ((k', v') # r) = (if k' = k then (k, v) # r else (k', v') # set_key k v r)"

definition getDefaultUniforms :: "ShaderDefinition \<Rightarrow> (string \<times> real) list" where
  "getDefaultUniforms shader =
     foldl (\<lambda>defaults uniform. set_key (uname uniform) (defaultValue uniform) defaults)
       [] (suniforms shader)"

section \<open>ShaderCanvas: initShader\<close>

text \<open>\<open>console.error(error); onError?.(error); hasErrorRef.current = true\<close>, the three
  lines every failure path of the component runs.\<close>

definition report :: "string \<Rightarrow> session \<Rightarrow> session" where
  "report msg s =
     s\<lparr>console := console s @ [[msg]], onErrorCalls := onErrorCalls s @ [msg], hasError := True\<rparr>"

text \<open>
  The block that both \<open>initShader\<close> ("Clean up existing program") and the unmount
  cleanup run: \<open>if (programRef.current) { gl.deleteProgram(programRef.current);
  programRef.current = null; }\<close>.
\<close>

definition deleteCurrentProgram :: "session \<Rightarrow> session" where
  "deleteCurrentProgram s =
     (case programRef s of
        Some program \<Rightarrow> (gl [DeleteProgram program] s)\<lparr>programRef := None\<rparr>
      | None \<Rightarrow> s)"

text \<open>
  \<open>initShader\<close> closes over the \<open>shaderId\<close> prop of the render that created it, here its
  second argument. The canvas element exists as long as the component is mounted, so of
  the guard \<open>!canvas || !gl\<close> only \<open>glRef\<close> is a state.
\<close>

definition initShader :: "host \<Rightarrow> string \<Rightarrow> session \<Rightarrow> bool \<times> session" where
  "initShader h shaderId s =
     (if \<not> glRef s then (False, s)
      else
        let s1 = deleteCurrentProgram s
        in case getShaderById shaderId of
             None \<Rightarrow> (False, report (''Shader not found: '' @ shaderId) s1)
           | Some shaderDef \<Rightarrow>
               (case compileShader h VERTEX_SHADER VERTEX_SHADER_SOURCE s1 of
                  (None, s2) \<Rightarrow> (False, report ''Failed to compile vertex shader'' s2)
                | (Some vertexShader, s2) \<Rightarrow>
                    (case compileShader h FRAGMENT_SHADER (fragmentSource shaderDef) s2 of
                       (None, s3) \<Rightarrow>
                         (False,
                          report (''Failed to compile fragment shader: '' @ sname shaderDef)
                            (gl [DeleteShader vertexShader] s3))
                     | (Some fragmentShader, s3) \<Rightarrow>
                         (case createProgram h vertexShader fragmentShader s3 of
                            (program, s4) \<Rightarrow>
                              let s5 = gl [DeleteShader vertexShader, DeleteShader fragmentShader] s4
                              in (case program of
                                    None \<Rightarrow>
                                      (False,
                                       report (''Failed to link shader program: '' @ sname shaderDef) s5)
                                  | Some p \<Rightarrow>
                                      (True, s5\<lparr>programRef := Some p, hasError := False\<rparr>))))))"

section \<open>ShaderCanvas: smoothing, frame-rate monitor, uniforms\<close>

definition FPS_SAMPLE_SIZE :: nat where
  "FPS_SAMPLE_SIZE = 30"

definition lerp :: "real \<Rightarrow> real \<Rightarrow> real \<Rightarrow> real" where
  "lerp a b t = a + (b - a) * t"

text \<open>\<open>performance.now()\<close> is an argument: the reading of the clock at the call.\<close>

definition createFPSMonitor :: "real \<Rightarrow> FPSMonitor" where
  "createFPSMonitor now = \<lparr>samples = [], lastTime = now, currentFPS = 60\<rparr>"

text \<open>\<open>updateFPSMonitor\<close> mutates the monitor and returns its \<open>currentFPS\<close>; the model
  returns the monitor, whose \<open>currentFPS\<close> field is that result.\<close>

definition updateFPSMonitor :: "real \<Rightarrow> FPSMonitor \<Rightarrow> FPSMonitor" where
  "updateFPSMonitor now monitor =
     (let delta = now - lastTime monitor;
          m1 = monitor\<lparr>lastTime := now\<rparr>
      in if delta > 0 then
           let fps = 1000 / delta;
               pushed = samples m1 @ [fps];
               kept = (if length pushed > FPS_SAMPLE_SIZE then tl pushed else pushed);
               avgFPS = foldl (\<lambda>a b. a + b) 0 kept / real (length kept)
           in m1\<lparr>samples := kept, currentFPS := avgFPS\<rparr>
         else m1)"

text \<open>\<open>String.prototype.includes\<close>.\<close>

fun starts_with :: "string \<Rightarrow> string \<Rightarrow> bool" where
  "starts_with s [] = True"
| "starts_with [] (c # cs) = False"
| "starts_with (x # xs) (c # cs) = (x = c \<and> starts_with xs cs)"

fun includes_str :: "string \<Rightarrow> string \<Rightarrow> bool" where
  "includes_str [] sub = (sub = [])"
| "includes_str (x # xs) sub = (starts_with (x # xs) sub \<or> includes_str xs sub)"

definition setUniform ::
  "host \<Rightarrow> handle \<Rightarrow> string \<Rightarrow> UniformType \<Rightarrow> uniform_value \<Rightarrow> session \<Rightarrow> session" where
  "setUniform h program name ty v s =
     (if \<not> uniform_active h program name then s
      else case ty of
             UFloat \<Rightarrow> gl [Uniform1f name v] s
           | UInt \<Rightarrow> gl [Uniform1i name v] s
           | UVec2 \<Rightarrow> gl [Uniform2fv name v] s
           | UVec3 \<Rightarrow> gl [Uniform3fv name v] s
           | UVec4 \<Rightarrow> gl [Uniform4fv name v] s)"

definition createFullscreenQuad :: "host \<Rightarrow> session \<Rightarrow> handle option \<times> session" where
  "createFullscreenQuad h s =
     (if \<not> vao_alloc h then
        (None, console_error [''Failed to create VAO''] (gl [CreateVertexArray None] s))
      else
        let vao = next_handle s;
            buffer = Suc vao
        in (Some vao,
            gl [CreateVertexArray (Some vao), BindVertexArray (Some vao),
                CreateBuffer buffer, BindBuffer buffer,
                BufferData [-1, -1, 1, -1, -1, 1, -1, 1, 1, -1, 1, 1],
                EnableVertexAttribArray 0, VertexAttribPointer 0 2,
                BindVertexArray None]
              (s\<lparr>next_handle := Suc buffer\<rparr>)))"

section \<open>ShaderCanvas: resize and pointer handlers\<close>

text \<open>
  The canvas's \<open>width\<close> and \<open>height\<close> attributes are unsigned integers: assigning the
  (non-negative) size of the parent's rectangle stores its integer part.
\<close>

definition handleResize :: "host \<Rightarrow> session \<Rightarrow> session" where
  "handleResize h s =
     (case parent_rect h of
        None \<Rightarrow> s
      | Some (width, height) \<Rightarrow>
          let s1 = s\<lparr>canvasSize := (nat \<lfloor>width\<rfloor>, nat \<lfloor>height\<rfloor>)\<rparr>
          in if glRef s1 then gl [Viewport 0 0 width height] s1 else s1)"

text \<open>
  \<open>canvas.getBoundingClientRect()\<close>. The handlers divide by its width and height; for a
  rectangle of width or height zero JavaScript yields \<open>NaN\<close> or an infinity, values that
  \<open>real\<close> does not have, so statements about pointer events below are for rectangles of
  positive width and height.
\<close>

record rect =
  rleft :: real
  rtop :: real
  rwidth :: real
  rheight :: real

text \<open>The position an event at \<open>(clientX, clientY)\<close> is normalised to, Y flipped.\<close>

definition observed :: "rect \<Rightarrow> real \<times> real \<Rightarrow> real \<times> real" where
  "observed r client =
     ((fst client - rleft r) / rwidth r, 1 - (snd client - rtop r) / rheight r)"

definition handleMouseMove :: "rect \<Rightarrow> real \<times> real \<Rightarrow> session \<Rightarrow> session" where
  "handleMouseMove r e s = s\<lparr>targetMouse := observed r e\<rparr>"

definition handleTouchMove :: "rect \<Rightarrow> (real \<times> real) list \<Rightarrow> session \<Rightarrow> session" where
  "handleTouchMove r touches s =
     (case touches of
        [] \<Rightarrow> s
      | touch # rest \<Rightarrow> s\<lparr>targetMouse := observed r touch\<rparr>)"

section \<open>ShaderCanvas: the frame callback\<close>

definition isInt :: "string \<Rightarrow> bool" where
  "isInt name = (includes_str name ''octave'' \<or> includes_str name ''segment'')"

text \<open>The loop over \<open>Object.entries(currentUniforms)\<close>.\<close>

definition setCustomUniforms ::
  "host \<Rightarrow> handle \<Rightarrow> (string \<times> real) list \<Rightarrow> session \<Rightarrow> session" where
  "setCustomUniforms h program entries s =
     foldl (\<lambda>acc (name, v).
              setUniform h program name (if isInt name then UInt else UFloat) (Num v) acc)
       s entries"

text \<open>The branch of \<open>render\<close> taken when there is no program, no quad, or the error flag
  is set.\<close>

definition idleFrame :: "session \<Rightarrow> session" where
  "idleFrame s =
     (if hasError s then gl [ClearColor 0.02 0.02 0.05 1.0, Clear] s else s)
       \<lparr>frameScheduled := True\<rparr>"

definition drawDebugOverlay :: "real \<Rightarrow> session \<Rightarrow> session" where
  "drawDebugOverlay fps s =
     s\<lparr>overlay := overlay s @ [(if fps < 30 then ''#ef4444'' else ''#14b8a6'', fps)]\<rparr>"

definition drawFrame :: "host \<Rightarrow> real \<Rightarrow> handle \<Rightarrow> handle \<Rightarrow> session \<Rightarrow> session" where
  "drawFrame h now program vao s =
     (let monitor = updateFPSMonitor now (fpsMonitor s);
          fps = currentFPS monitor;
          mouse = (lerp (fst (currentMouse s)) (fst (targetMouse s)) 0.1,
                   lerp (snd (currentMouse s)) (snd (targetMouse s)) 0.1);
          time = (now - startTime s) / 1000;
          s1 = s\<lparr>fpsMonitor := monitor, currentMouse := mouse\<rparr>;
          s2 = gl [ClearColor 0.02 0.02 0.05 1.0, Clear, UseProgram program,
                   BindVertexArray (Some vao)] s1;
          s3 = setUniform h program ''u_time'' UFloat (Num time) s2;
          s4 = setUniform h program ''u_resolution'' UVec2
                 (Arr [real (fst (canvasSize s3)), real (snd (canvasSize s3))]) s3;
          s5 = setUniform h program ''u_mouse'' UVec2 (Arr [fst mouse, snd mouse]) s4;
          s6 = setCustomUniforms h program (uniformsRef s5) s5;
          s7 = gl [DrawArrays 0 6, BindVertexArray None] s6;
          s8 = (if showDebugRef s7 \<and> debugCanvas s7 then drawDebugOverlay fps s7 else s7)
      in s8\<lparr>frameScheduled := True\<rparr>)"

text \<open>
  \<open>render\<close>, the callback given to \<open>requestAnimationFrame\<close>. The \<open>gl\<close> it closes over is
  the context its mount effect obtained, which is not null there. Both paths end with
  \<open>requestAnimationFrame(render)\<close>, the field \<open>frameScheduled\<close>.
\<close>

definition render :: "host \<Rightarrow> real \<Rightarrow> session \<Rightarrow> session" where
  "render h now s =
     (case programRef s of
        None \<Rightarrow> idleFrame s
      | Some program \<Rightarrow>
          (case vaoRef s of
             None \<Rightarrow> idleFrame s
           | Some vao \<Rightarrow> if hasError s then idleFrame s else drawFrame h now program vao s))"

section \<open>ShaderCanvas: the effects\<close>

text \<open>
  The body of the effect "Initialize WebGL context and start render loop". It runs
  \<open>render()\<close> once itself; that first frame requests the next one. When it returns early
  it registers no cleanup and starts no loop.
\<close>

definition mountEffect :: "host \<Rightarrow> real \<Rightarrow> string \<Rightarrow> session \<Rightarrow> session" where
  "mountEffect h now shaderId s =
     (if \<not> context_ok h then
        report ''WebGL2 is not supported in this browser''
          (console_error [''WebGL2 is not supported in this browser''] s)
      else
        let s1 = handleResize h (s\<lparr>glRef := True\<rparr>)
        in case createFullscreenQuad h s1 of
             (None, s2) \<Rightarrow> report ''Failed to create fullscreen quad'' s2
           | (Some vao, s2) \<Rightarrow>
               let (ok, s3) = initShader h shaderId (s2\<lparr>vaoRef := Some vao\<rparr>)
               in if \<not> ok then s3
                  else
                    let s4 = s3\<lparr>startTime := now, fpsMonitor := createFPSMonitor now,
                                debugCanvas := showDebugRef s3\<rparr>;
                        s5 = render h now s4
                    in s5\<lparr>listening := True, observing := (parent_rect h \<noteq> None),
                          cleanupRegistered := True\<rparr>)"

text \<open>The function that effect returns ("Cleanup on unmount").\<close>

definition unmountCleanup :: "session \<Rightarrow> session" where
  "unmountCleanup s =
     (let s1 = s\<lparr>frameScheduled := False, observing := False, listening := False,
                 debugCanvas := False\<rparr>;
          s2 = (case vaoRef s1 of
                  Some vao \<Rightarrow> (gl [DeleteVertexArray vao] s1)\<lparr>vaoRef := None\<rparr>
                | None \<Rightarrow> s1);
          s3 = deleteCurrentProgram s2
      in s3\<lparr>glRef := False\<rparr>)"

text \<open>The body of the effect "Reinitialize shader when shaderId changes".\<close>

definition shaderIdEffect :: "host \<Rightarrow> real \<Rightarrow> string \<Rightarrow> session \<Rightarrow> session" where
  "shaderIdEffect h now shaderId s =
     (if glRef s \<and> vaoRef s \<noteq> None then (snd (initShader h shaderId s))\<lparr>startTime := now\<rparr>
      else s)"

section \<open>The page, and React's commit of the canvas\<close>

record page =
  pShaderId :: string
  pUniforms :: "(string \<times> real) list"
  pShowDebug :: bool
  pError :: "string option"

definition initialPage :: page where
  "initialPage =
     \<lparr>pShaderId = ''plasma'',
      pUniforms = (case getShaderById ''plasma'' of
                     Some initialShader \<Rightarrow> getDefaultUniforms initialShader
                   | None \<Rightarrow> []),
      pShowDebug = False,
      pError = None\<rparr>"

definition handleShaderSelect :: "string \<Rightarrow> page \<Rightarrow> page" where
  "handleShaderSelect ident p =
     (case getShaderById ident of
        Some shader \<Rightarrow>
          p\<lparr>pShaderId := ident, pUniforms := getDefaultUniforms shader, pError := None\<rparr>
      | None \<Rightarrow> p)"

definition handleUniformChange :: "string \<Rightarrow> real \<Rightarrow> page \<Rightarrow> page" where
  "handleUniformChange name v p = p\<lparr>pUniforms := set_key name v (pUniforms p)\<rparr>"

definition handleResetDefaults :: "page \<Rightarrow> page" where
  "handleResetDefaults p =
     (case getShaderById (pShaderId p) of
        Some shader \<Rightarrow> p\<lparr>pUniforms := getDefaultUniforms shader\<rparr>
      | None \<Rightarrow> p)"

text \<open>
  The refs of a canvas that is being mounted: the initial values given to \<open>useRef\<close>. A
  canvas element starts 300 by 150.
\<close>

definition initialSession :: "real \<Rightarrow> page \<Rightarrow> session" where
  "initialSession now p =
     \<lparr>glRef = False, programRef = None, vaoRef = None, frameScheduled = False,
      startTime = now, fpsMonitor = createFPSMonitor now, hasError = False,
      targetMouse = (0.5, 0.5), currentMouse = (0.5, 0.5),
      uniformsRef = pUniforms p, showDebugRef = pShowDebug p,
      depShaderId = pShaderId p, cleanupRegistered = False, debugCanvas = False,
      listening = False, observing = False, canvasSize = (300, 150),
      next_handle = 0, calls = [], console = [], onErrorCalls = [], overlay = []\<rparr>"

text \<open>Mounting runs the effects in the order they are declared.\<close>

definition mount :: "host \<Rightarrow> real \<Rightarrow> page \<Rightarrow> session" where
  "mount h now p =
     shaderIdEffect h now (pShaderId p)
       (mountEffect h now (pShaderId p) (initialSession now p))"

text \<open>
  What React does with the canvas when the page has rendered again with props \<open>p\<close>.
  An effect runs again only if one of its dependencies changed. The two small effects
  copy \<open>uniforms\<close> and \<open>showDebug\<close> into their refs. \<open>initShader\<close> is
  \<open>useCallback(..., [shaderId, onError])\<close> and \<open>onError\<close> is the page's state setter,
  which never changes; so \<open>initShader\<close> changes exactly when \<open>shaderId\<close> does, and with
  it both effects that depend on it: the mount effect (its cleanup first, if its last run
  registered one) and the \<open>shaderId\<close> effect. \<open>depShaderId\<close> is the \<open>shaderId\<close> of the
  previous render, which React compares with.
\<close>

definition commit :: "host \<Rightarrow> real \<Rightarrow> page \<Rightarrow> session \<Rightarrow> session" where
  "commit h now p s =
     (let s1 = s\<lparr>uniformsRef := pUniforms p, showDebugRef := pShowDebug p\<rparr>
      in if pShaderId p = depShaderId s1 then s1
         else
           let s2 = (if cleanupRegistered s1 then unmountCleanup s1 else s1)
                      \<lparr>cleanupRegistered := False\<rparr>;
               s3 = mountEffect h now (pShaderId p) s2;
               s4 = shaderIdEffect h now (pShaderId p) s3
           in s4\<lparr>depShaderId := pShaderId p\<rparr>)"

text \<open>\<open>onError\<close> is \<open>setError\<close>: the page shows the last error an effect reported.\<close>

definition rerender :: "host \<Rightarrow> real \<Rightarrow> page \<Rightarrow> session \<Rightarrow> page \<times> session" where
  "rerender h now p s =
     (let s' = commit h now p s
      in (if length (onErrorCalls s') > length (onErrorCalls s)
          then p\<lparr>pError := Some (last (onErrorCalls s'))\<rparr> else p, s'))"

datatype event =
    Frame
  | MouseMove rect "real \<times> real"
  | TouchMove rect "(real \<times> real) list"
  | Resize
  | Select string
  | UniformChange string real
  | ResetDefaults
  | ToggleDebug

text \<open>One event of the browser, with the host's answers and the clock at that moment.\<close>

fun step :: "host \<Rightarrow> real \<Rightarrow> event \<Rightarrow> page \<times> session \<Rightarrow> page \<times> session" where
  "step h now Frame (p, s) = (p, if frameScheduled s then render h now s else s)"
| "step h now (MouseMove r e) (p, s) = (p, if listening s then handleMouseMove r e s else s)"
| "step h now (TouchMove r ts) (p, s) = (p, if listening s then handleTouchMove r ts s else s)"
| "step h now Resize (p, s) = (p, if observing s then handleResize h s else s)"
| "step h now (Select ident) (p, s) = rerender h now (handleShaderSelect ident p) s"
| "step h now (UniformChange name v) (p, s) = rerender h now (handleUniformChange name v p) s"
| "step h now ResetDefaults (p, s) = rerender h now (handleResetDefaults p) s"
| "step h now ToggleDebug (p, s) = rerender h now (p\<lparr>pShowDebug := \<not> pShowDebug p\<rparr>) s"

fun run :: "(host \<times> real \<times> event) list \<Rightarrow> page \<times> session \<Rightarrow> page \<times> session" where
  "run [] st = st"
| "run ((h, now, ev) # rest) st = run rest (step h now ev st)"

section \<open>Vocabulary of the properties\<close>

text \<open>The stage handles a piece of the log creates, and those it releases.\<close>

fun created_shader :: "gl_call \<Rightarrow> handle list" where
  "created_shader (CreateShader t (Some shader)) = [shader]"
| "created_shader c = []"

fun deleted_shader :: "gl_call \<Rightarrow> handle list" where
  "deleted_shader (DeleteShader shader) = [shader]"
| "deleted_shader c = []"

definition shaders_created :: "gl_call list \<Rightarrow> handle list" where
  "shaders_created cs = concat (map created_shader cs)"

definition shaders_deleted :: "gl_call list \<Rightarrow> handle list" where
  "shaders_deleted cs = concat (map deleted_shader cs)"

text \<open>A host on which everything succeeds and every uniform is active, and one whose
  compiler rejects every fragment stage.\<close>

definition good_host :: host where
  "good_host =
     \<lparr>context_ok = True, shader_alloc = (\<lambda>t. True), compile_log = (\<lambda>t src. None),
      program_alloc = True, link_log = (\<lambda>v f. None), vao_alloc = True,
      uniform_active = (\<lambda>p n. True), parent_rect = Some (800, 600)\<rparr>"

definition bad_fragment_host :: host where
  "bad_fragment_host =
     good_host\<lparr>compile_log :=
       (\<lambda>t src. if t = FRAGMENT_SHADER then Some ''ERROR: 0:1: syntax error'' else None)\<rparr>"

text \<open>
  Which stage of a build fails on a host, and the error \<open>initShader\<close> then hands to
  \<open>onError\<close>. The two stages get the handles \<open>next_handle s\<close> and its successor.
\<close>

definition vertex_fails :: "host \<Rightarrow> bool" where
  "vertex_fails h =
     (\<not> shader_alloc h VERTEX_SHADER \<or>
      compile_log h VERTEX_SHADER VERTEX_SHADER_SOURCE \<noteq> None)"

definition fragment_fails :: "host \<Rightarrow> ShaderDefinition \<Rightarrow> bool" where
  "fragment_fails h d =
     (\<not> shader_alloc h FRAGMENT_SHADER \<or>
      compile_log h FRAGMENT_SHADER (fragmentSource d) \<noteq> None)"

definition link_fails :: "host \<Rightarrow> handle \<Rightarrow> handle \<Rightarrow> bool" where
  "link_fails h v f = (\<not> program_alloc h \<or> link_log h v f \<noteq> None)"

definition build_errors :: "host \<Rightarrow> string \<Rightarrow> session \<Rightarrow> string list" where
  "build_errors h ident s =
     (if \<not> glRef s then []
      else case getShaderById ident of
             None \<Rightarrow> [''Shader not found: '' @ ident]
           | Some d \<Rightarrow>
               if vertex_fails h then [''Failed to compile vertex shader'']
               else if fragment_fails h d then [''Failed to compile fragment shader: '' @ sname d]
               else if link_fails h (next_handle s) (Suc (next_handle s))
                 then [''Failed to link shader program: '' @ sname d]
               else [])"

text \<open>The same host with every diagnostic text rewritten.\<close>

definition rewrite_logs :: "(string \<Rightarrow> string) \<Rightarrow> (string \<Rightarrow> string) \<Rightarrow> host \<Rightarrow> host" where
  "rewrite_logs f g h =
     h\<lparr>compile_log := (\<lambda>t src. map_option f (compile_log h t src)),
       link_log := (\<lambda>v fr. map_option g (link_log h v fr))\<rparr>"

text \<open>The canvas of the page as first mounted on the good host, at time 0.\<close>

definition plasma_session :: session where
  "plasma_session = mount good_host 0 initialPage"

text \<open>The uniform a call uploads, the uploads of one uniform in a piece of the log, and
  the numeric kind a scalar upload marshals its value as.\<close>

fun uniform_name :: "gl_call \<Rightarrow> string option" where
  "uniform_name (Uniform1f n v) = Some n"
| "uniform_name (Uniform1i n v) = Some n"
| "uniform_name (Uniform2fv n v) = Some n"
| "uniform_name (Uniform3fv n v) = Some n"
| "uniform_name (Uniform4fv n v) = Some n"
| "uniform_name c = None"

definition uploads_of :: "string \<Rightarrow> gl_call list \<Rightarrow> gl_call list" where
  "uploads_of name cs = filter (\<lambda>c. uniform_name c = Some name) cs"


text \<open>The calls of one \<open>setUniform\<close>, of one round of the loop over the entries, and of
  the three standard uniforms of a frame.\<close>

definition uniform_call :: "UniformType \<Rightarrow> string \<Rightarrow> uniform_value \<Rightarrow> gl_call" where
  "uniform_call ty name v =
     (case ty of
        UFloat \<Rightarrow> Uniform1f name v
      | UInt \<Rightarrow> Uniform1i name v
      | UVec2 \<Rightarrow> Uniform2fv name v
      | UVec3 \<Rightarrow> Uniform3fv name v
      | UVec4 \<Rightarrow> Uniform4fv name v)"

definition custom_upload :: "host \<Rightarrow> handle \<Rightarrow> string \<times> real \<Rightarrow> gl_call list" where
  "custom_upload h program e =
     (if uniform_active h program (fst e)
      then [if isInt (fst e) then Uniform1i (fst e) (Num (snd e))
            else Uniform1f (fst e) (Num (snd e))]
      else [])"

definition standard_uploads :: "host \<Rightarrow> real \<Rightarrow> handle \<Rightarrow> session \<Rightarrow> gl_call list" where
  "standard_uploads h now program s =
     (if uniform_active h program ''u_time''
      then [Uniform1f ''u_time'' (Num ((now - startTime s) / 1000))] else []) @
     (if uniform_active h program ''u_resolution''
      then [Uniform2fv ''u_resolution''
              (Arr [real (fst (canvasSize s)), real (snd (canvasSize s))])]
      else []) @
     (if uniform_active h program ''u_mouse''
      then [Uniform2fv ''u_mouse''
              (Arr [lerp (fst (currentMouse s)) (fst (targetMouse s)) 0.1,
                    lerp (snd (currentMouse s)) (snd (targetMouse s)) 0.1])]
      else [])"



text \<open>The canvas after the page handed it a parameter map of its own choice, the shader
  unchanged.\<close>

definition with_uniforms :: "(string \<times> real) list \<Rightarrow> session" where
  "with_uniforms entries = commit good_host 16 (initialPage\<lparr>pUniforms := entries\<rparr>) plasma_session"


text \<open>The page and canvas after the sphere shader was selected on a host whose compiler
  rejects its fragment stage.\<close>

definition failed_switch :: "page \<times> session" where
  "failed_switch =
     step bad_fragment_host 5000 (Select ''sphere'') (initialPage, plasma_session)"

text \<open>The unit square of normalised pointer positions; a \<open>u_mouse\<close> upload that stays in
  it; an event whose observed pointer position lies in it.\<close>

definition in_unit :: "real \<times> real \<Rightarrow> bool" where
  "in_unit p = (0 \<le> fst p \<and> fst p \<le> 1 \<and> 0 \<le> snd p \<and> snd p \<le> 1)"

fun mouse_upload_ok :: "gl_call \<Rightarrow> bool" where
  "mouse_upload_ok (Uniform2fv name v) =
     (if name = ''u_mouse''
      then (case v of Arr [x, y] \<Rightarrow> in_unit (x, y) | _ \<Rightarrow> False)
      else True)"
| "mouse_upload_ok c = True"

fun pointer_in_unit :: "event \<Rightarrow> bool" where
  "pointer_in_unit (MouseMove r e) = (0 < rwidth r \<and> 0 < rheight r \<and> in_unit (observed r e))"
| "pointer_in_unit (TouchMove r ts) =
     (0 < rwidth r \<and> 0 < rheight r \<and> list_all (\<lambda>t. in_unit (observed r t)) (take 1 ts))"
| "pointer_in_unit ev = True"

definition mouse_inv :: "session \<Rightarrow> bool" where
  "mouse_inv s =
     (in_unit (currentMouse s) \<and> in_unit (targetMouse s) \<and>
      list_all mouse_upload_ok (calls s))"

section \<open>Basic facts about the log\<close>

lemma calls_gl [simp]: "calls (gl cs s) = calls s @ cs"
  by (simp add: gl_def)

lemma emitted_append: "calls s' = calls s @ new \<Longrightarrow> emitted s s' = new"
  by (simp add: emitted_def)

section \<open>The frame-rate monitor\<close>

lemma updateFPSMonitor_bound:
  "length (samples m) \<le> FPS_SAMPLE_SIZE \<Longrightarrow>
   length (samples (updateFPSMonitor now m)) \<le> FPS_SAMPLE_SIZE"
  by (auto simp: updateFPSMonitor_def Let_def)

lemma monitor_updates_bound:
  "length (samples m) \<le> FPS_SAMPLE_SIZE \<Longrightarrow>
   length (samples (foldl (\<lambda>m now. updateFPSMonitor now m) m ts)) \<le> FPS_SAMPLE_SIZE"
  by (induction ts arbitrary: m) (simp_all add: updateFPSMonitor_bound)

lemma updateFPSMonitor_keeps_latest:
  assumes "length (samples m) \<le> FPS_SAMPLE_SIZE" and "lastTime m < now"
  shows "samples (updateFPSMonitor now m) =
         drop (length (samples m) + 1 - FPS_SAMPLE_SIZE) (samples m @ [1000 / (now - lastTime m)])"
proof (cases "length (samples m) = FPS_SAMPLE_SIZE")
  case True
  then have "samples m \<noteq> []"
    by (auto simp: FPS_SAMPLE_SIZE_def)
  then obtain x xs where "samples m = x # xs"
    by (cases "samples m") auto
  with True assms(2) show ?thesis
    by (simp add: updateFPSMonitor_def Let_def)
next
  case False
  with assms show ?thesis
    by (simp add: updateFPSMonitor_def Let_def)
qed

text \<open>
  C9. The history of the frame-rate monitor never holds more than 30 samples: not after
  any sequence of updates of a fresh monitor, and an update of any monitor within the
  bound stays within it. An update with a positive delta keeps the most recent 30 of the
  old samples followed by the new one (a sample is the rate \<open>1000 / delta\<close>).
\<close>

theorem fps_history_bounded:
  "FPS_SAMPLE_SIZE = 30 \<and>
   length (samples (foldl (\<lambda>m now. updateFPSMonitor now m) (createFPSMonitor t0) ts)) \<le> 30 \<and>
   (length (samples m) \<le> 30 \<longrightarrow> length (samples (updateFPSMonitor now m)) \<le> 30) \<and>
   (length (samples m) \<le> 30 \<and> lastTime m < now \<longrightarrow>
      samples (updateFPSMonitor now m) =
        drop (length (samples m) + 1 - 30) (samples m @ [1000 / (now - lastTime m)]))"
proof -
  have size: "FPS_SAMPLE_SIZE = 30"
    by (simp add: FPS_SAMPLE_SIZE_def)
  have "length (samples (createFPSMonitor t0)) \<le> FPS_SAMPLE_SIZE"
    by (simp add: createFPSMonitor_def)
  then have "length (samples (foldl (\<lambda>m now. updateFPSMonitor now m) (createFPSMonitor t0) ts))
             \<le> FPS_SAMPLE_SIZE"
    by (rule monitor_updates_bound)
  with size updateFPSMonitor_bound [of m now] updateFPSMonitor_keeps_latest [of m now]
  show ?thesis
    by simp
qed

theorem fps_history_bounded_witness:
  "length (samples (createFPSMonitor 0)) \<le> 30 \<and> lastTime (createFPSMonitor 0) < 16 \<and>
   length (samples (updateFPSMonitor 16 (createFPSMonitor 0))) \<le> 30 \<and>
   samples (updateFPSMonitor 16 (createFPSMonitor 0)) = [1000 / 16]"
  using fps_history_bounded [of 0 "[]" "createFPSMonitor 0" 16]
  by (simp add: createFPSMonitor_def)

section \<open>The session the examples start from\<close>

lemmas build_defs = initShader_def deleteCurrentProgram_def compileShader_def createProgram_def
  console_error_def report_def gl_def Let_def

lemmas catalogue_defs = getShaderById_def SHADERS_def plasmaShader_def sphereShader_def
  noiseShader_def kaleidoscopeShader_def auroraShader_def getDefaultUniforms_def

lemmas frame_defs = render_def drawFrame_def idleFrame_def setUniform_def setCustomUniforms_def
  drawDebugOverlay_def createFPSMonitor_def updateFPSMonitor_def lerp_def

lemma plasma_session_eq:
  "plasma_session =
     \<lparr>glRef = True, programRef = Some 7, vaoRef = Some 0, frameScheduled = True,
      startTime = 0, fpsMonitor = \<lparr>samples = [], lastTime = 0, currentFPS = 60\<rparr>,
      hasError = False, targetMouse = (0.5, 0.5), currentMouse = (0.5, 0.5),
      uniformsRef = [(''u_speed'', 1), (''u_scale'', 4), (''u_colorShift'', 0.5)],
      showDebugRef = False, depShaderId = ''plasma'', cleanupRegistered = True,
      debugCanvas = False, listening = True, observing = True, canvasSize = (800, 600),
      next_handle = 8,
      calls =
        [Viewport 0 0 800 600, CreateVertexArray (Some 0), BindVertexArray (Some 0),
         CreateBuffer 1, BindBuffer 1,
         BufferData [- 1, - 1, 1, - 1, - 1, 1, - 1, 1, 1, - 1, 1, 1],
         EnableVertexAttribArray 0, VertexAttribPointer 0 2, BindVertexArray None,
         CreateShader VERTEX_SHADER (Some 2), ShaderSource 2 VERTEX_SHADER_SOURCE,
         CompileShader 2, CreateShader FRAGMENT_SHADER (Some 3),
         ShaderSource 3 ''plasma.frag'', CompileShader 3, CreateProgram (Some 4),
         AttachShader 4 2, AttachShader 4 3, LinkProgram 4, DeleteShader 2, DeleteShader 3,
         ClearColor 0.02 0.02 0.05 1, Clear, UseProgram 4, BindVertexArray (Some 0),
         Uniform1f ''u_time'' (Num 0), Uniform2fv ''u_resolution'' (Arr [800, 600]),
         Uniform2fv ''u_mouse'' (Arr [0.5, 0.5]), Uniform1f ''u_speed'' (Num 1),
         Uniform1f ''u_scale'' (Num 4), Uniform1f ''u_colorShift'' (Num 0.5),
         DrawArrays 0 6, BindVertexArray None, DeleteProgram 4,
         CreateShader VERTEX_SHADER (Some 5), ShaderSource 5 VERTEX_SHADER_SOURCE,
         CompileShader 5, CreateShader FRAGMENT_SHADER (Some 6),
         ShaderSource 6 ''plasma.frag'', CompileShader 6, CreateProgram (Some 7),
         AttachShader 7 5, AttachShader 7 6, LinkProgram 7, DeleteShader 5, DeleteShader 6],
      console = [], onErrorCalls = [], overlay = []\<rparr>"
  by (simp add: plasma_session_def mount_def mountEffect_def shaderIdEffect_def
        initialSession_def initialPage_def good_host_def handleResize_def
        createFullscreenQuad_def build_defs catalogue_defs frame_defs isInt_def)

lemma plasma_session_fields:
  "glRef plasma_session" "programRef plasma_session = Some 7" "vaoRef plasma_session = Some 0"
  "frameScheduled plasma_session" "startTime plasma_session = 0" "\<not> hasError plasma_session"
  "targetMouse plasma_session = (0.5, 0.5)" "currentMouse plasma_session = (0.5, 0.5)"
  "uniformsRef plasma_session = [(''u_speed'', 1), (''u_scale'', 4), (''u_colorShift'', 0.5)]"
  "\<not> showDebugRef plasma_session" "depShaderId plasma_session = ''plasma''"
  "cleanupRegistered plasma_session" "\<not> debugCanvas plasma_session" "listening plasma_session"
  "observing plasma_session" "canvasSize plasma_session = (800, 600)"
  "next_handle plasma_session = 8" "console plasma_session = []"
  "onErrorCalls plasma_session = []" "overlay plasma_session = []"
  "fpsMonitor plasma_session = \<lparr>samples = [], lastTime = 0, currentFPS = 60\<rparr>"
  by (simp_all add: plasma_session_eq)

section \<open>initShader: what a build leaves behind\<close>

lemma initShader_log:
  "\<exists>new. calls (snd (initShader h ident s)) = calls s @ new \<and>
     distinct (shaders_created new) \<and> distinct (shaders_deleted new) \<and>
     set (shaders_deleted new) = set (shaders_created new) \<and>
     (\<forall>p. CreateProgram p \<in> set new \<longrightarrow>
        new = butlast (butlast new) @
                [DeleteShader (next_handle s), DeleteShader (Suc (next_handle s))] \<and>
        CreateProgram p \<in> set (butlast (butlast new)) \<and>
        shaders_created new = [next_handle s, Suc (next_handle s)]) \<and>
     (\<forall>old. programRef s = Some old \<and> glRef s \<longrightarrow> DeleteProgram old \<in> set new)"
  by (simp add: build_defs shaders_created_def shaders_deleted_def insert_commute
      split: option.split prod.split)

lemmas stage_defs = build_errors_def vertex_fails_def fragment_fails_def link_fails_def

lemma initShader_onError:
  "onErrorCalls (snd (initShader h ident s)) = onErrorCalls s @ build_errors h ident s"
  by (simp add: build_defs stage_defs split: option.split prod.split)

lemma initShader_result:
  "fst (initShader h ident s) = (glRef s \<and> build_errors h ident s = [])"
  by (simp add: build_defs stage_defs split: option.split prod.split)

lemma initShader_hasError:
  "glRef s \<Longrightarrow> hasError (snd (initShader h ident s)) = (build_errors h ident s \<noteq> [])"
  by (simp add: build_defs stage_defs split: option.split prod.split)

lemma initShader_programRef:
  "glRef s \<Longrightarrow>
   programRef (snd (initShader h ident s)) =
     (if build_errors h ident s = [] then Some (Suc (Suc (next_handle s))) else None)"
  by (simp add: build_defs stage_defs split: option.split prod.split)

lemma initShader_unchanged:
  "glRef (snd (initShader h ident s)) = glRef s"
  "vaoRef (snd (initShader h ident s)) = vaoRef s"
  "currentMouse (snd (initShader h ident s)) = currentMouse s"
  "targetMouse (snd (initShader h ident s)) = targetMouse s"
  "startTime (snd (initShader h ident s)) = startTime s"
  "frameScheduled (snd (initShader h ident s)) = frameScheduled s"
  by (simp_all add: build_defs split: option.split prod.split)

lemma initShader_console_vertex:
  "glRef s \<Longrightarrow> getShaderById ident = Some d \<Longrightarrow> shader_alloc h VERTEX_SHADER \<Longrightarrow>
   compile_log h VERTEX_SHADER VERTEX_SHADER_SOURCE = Some info \<Longrightarrow>
   console (snd (initShader h ident s)) =
     console s @ [[''Shader compilation error:'', info], [''Failed to compile vertex shader'']]"
  by (simp add: build_defs split: option.split prod.split)

lemma initShader_console_fragment:
  "glRef s \<Longrightarrow> getShaderById ident = Some d \<Longrightarrow> \<not> vertex_fails h \<Longrightarrow>
   shader_alloc h FRAGMENT_SHADER \<Longrightarrow>
   compile_log h FRAGMENT_SHADER (fragmentSource d) = Some info \<Longrightarrow>
   console (snd (initShader h ident s)) =
     console s @ [[''Shader compilation error:'', info],
                  [''Failed to compile fragment shader: '' @ sname d]]"
  by (simp add: build_defs vertex_fails_def split: option.split prod.split)

lemma initShader_console_link:
  "glRef s \<Longrightarrow> getShaderById ident = Some d \<Longrightarrow> \<not> vertex_fails h \<Longrightarrow>
   \<not> fragment_fails h d \<Longrightarrow> program_alloc h \<Longrightarrow>
   link_log h (next_handle s) (Suc (next_handle s)) = Some info \<Longrightarrow>
   console (snd (initShader h ident s)) =
     console s @ [[''Program link error:'', info],
                  [''Failed to link shader program: '' @ sname d]]"
  by (simp add: build_defs vertex_fails_def fragment_fails_def split: option.split prod.split)

lemma build_errors_rewrite_logs:
  "build_errors (rewrite_logs f g h) ident s = build_errors h ident s"
  by (simp add: stage_defs rewrite_logs_def split: option.split)

lemma render_with_error:
  "hasError s \<Longrightarrow>
   render h now s = (gl [ClearColor 0.02 0.02 0.05 1, Clear] s)\<lparr>frameScheduled := True\<rparr>"
  by (simp add: render_def idleFrame_def split: option.split)

text \<open>
  C6. Whatever the outcome of a build, every stage handle it created is released exactly
  once before \<open>initShader\<close> returns: the handles created are distinct, those deleted
  are distinct, and they are the same handles. Once the link was attempted
  (\<open>createProgram\<close> was reached, whether it produced a program or not), the build ends
  by deleting the vertex and the fragment stage, after that attempt.
\<close>

theorem build_releases_stage_handles:
  "let E = emitted s (snd (initShader h ident s)) in
     distinct (shaders_created E) \<and> distinct (shaders_deleted E) \<and>
     set (shaders_deleted E) = set (shaders_created E) \<and>
     (\<forall>p. CreateProgram p \<in> set E \<longrightarrow>
        (\<exists>pre v f. E = pre @ [DeleteShader v, DeleteShader f] \<and>
           CreateProgram p \<in> set pre \<and> shaders_created E = [v, f]))"
proof -
  from initShader_log [of h ident s] obtain new where
    new: "calls (snd (initShader h ident s)) = calls s @ new" and
    once: "distinct (shaders_created new)" "distinct (shaders_deleted new)"
      "set (shaders_deleted new) = set (shaders_created new)" and
    link: "\<And>p. CreateProgram p \<in> set new \<Longrightarrow>
      new = butlast (butlast new) @
              [DeleteShader (next_handle s), DeleteShader (Suc (next_handle s))] \<and>
      CreateProgram p \<in> set (butlast (butlast new)) \<and>
      shaders_created new = [next_handle s, Suc (next_handle s)]"
    by blast
  have E: "emitted s (snd (initShader h ident s)) = new"
    using new by (rule emitted_append)
  have "\<exists>pre v f. new = pre @ [DeleteShader v, DeleteShader f] \<and>
          CreateProgram p \<in> set pre \<and> shaders_created new = [v, f]"
    if "CreateProgram p \<in> set new" for p
    using link [OF that] by blast
  with once show ?thesis
    unfolding Let_def E by blast
qed

theorem build_releases_stage_handles_witness:
  "CreateProgram (Some 10)
     \<in> set (emitted plasma_session (snd (initShader good_host ''sphere'' plasma_session))) \<and>
   shaders_created (emitted plasma_session (snd (initShader good_host ''sphere'' plasma_session)))
     = [8, 9] \<and>
   (\<exists>pre v f.
      emitted plasma_session (snd (initShader good_host ''sphere'' plasma_session))
        = pre @ [DeleteShader v, DeleteShader f] \<and>
      CreateProgram (Some 10) \<in> set pre)"
proof -
  have "calls (snd (initShader good_host ''sphere'' plasma_session)) =
        calls plasma_session @
          [DeleteProgram 7, CreateShader VERTEX_SHADER (Some 8),
           ShaderSource 8 VERTEX_SHADER_SOURCE, CompileShader 8,
           CreateShader FRAGMENT_SHADER (Some 9), ShaderSource 9 ''sphere.frag'',
           CompileShader 9, CreateProgram (Some 10), AttachShader 10 8, AttachShader 10 9,
           LinkProgram 10, DeleteShader 8, DeleteShader 9]"
    by (simp add: plasma_session_fields build_defs good_host_def catalogue_defs)
  then have E: "emitted plasma_session (snd (initShader good_host ''sphere'' plasma_session)) =
          [DeleteProgram 7, CreateShader VERTEX_SHADER (Some 8),
           ShaderSource 8 VERTEX_SHADER_SOURCE, CompileShader 8,
           CreateShader FRAGMENT_SHADER (Some 9), ShaderSource 9 ''sphere.frag'',
           CompileShader 9, CreateProgram (Some 10), AttachShader 10 8, AttachShader 10 9,
           LinkProgram 10, DeleteShader 8, DeleteShader 9]"
    by (rule emitted_append)
  have attempted: "CreateProgram (Some 10)
     \<in> set (emitted plasma_session (snd (initShader good_host ''sphere'' plasma_session)))"
    by (simp add: E)
  have created: "shaders_created
      (emitted plasma_session (snd (initShader good_host ''sphere'' plasma_session))) = [8, 9]"
    by (simp add: E shaders_created_def)
  from build_releases_stage_handles [of plasma_session good_host "''sphere''"] attempted
  have "\<exists>pre v f.
      emitted plasma_session (snd (initShader good_host ''sphere'' plasma_session))
        = pre @ [DeleteShader v, DeleteShader f] \<and>
      CreateProgram (Some 10) \<in> set pre \<and>
      shaders_created (emitted plasma_session (snd (initShader good_host ''sphere'' plasma_session)))
        = [v, f]"
    unfolding Let_def by blast
  with attempted created show ?thesis
    by blast
qed

section \<open>A failed build on a shader switch\<close>

text \<open>
  C2, as stated, fails: the claim has a switch whose fragment stage does not compile
  leave the previous program installed. On the mounted plasma session, a build of the
  sphere shader on a host whose compiler rejects the fragment stage returns false, and
  the program that was active (handle 7) has been deleted and is no longer installed;
  the same holds for the whole switch as the page triggers it.
\<close>

theorem failed_switch_deletes_previous_program:
  "programRef plasma_session = Some 7 \<and>
   compile_log bad_fragment_host FRAGMENT_SHADER (fragmentSource sphereShader)
     = Some ''ERROR: 0:1: syntax error'' \<and>
   fst (initShader bad_fragment_host ''sphere'' plasma_session) = False \<and>
   programRef (snd (initShader bad_fragment_host ''sphere'' plasma_session)) = None \<and>
   DeleteProgram 7
     \<in> set (emitted plasma_session (snd (initShader bad_fragment_host ''sphere'' plasma_session))) \<and>
   programRef (snd (step bad_fragment_host 5000 (Select ''sphere'') (initialPage, plasma_session)))
     = None"
proof -
  have "calls (snd (initShader bad_fragment_host ''sphere'' plasma_session)) =
        calls plasma_session @
          [DeleteProgram 7, CreateShader VERTEX_SHADER (Some 8),
           ShaderSource 8 VERTEX_SHADER_SOURCE, CompileShader 8,
           CreateShader FRAGMENT_SHADER (Some 9), ShaderSource 9 ''sphere.frag'',
           CompileShader 9, DeleteShader 9, DeleteShader 8]"
    by (simp add: plasma_session_fields build_defs bad_fragment_host_def good_host_def
          catalogue_defs)
  then have "emitted plasma_session (snd (initShader bad_fragment_host ''sphere'' plasma_session)) =
          [DeleteProgram 7, CreateShader VERTEX_SHADER (Some 8),
           ShaderSource 8 VERTEX_SHADER_SOURCE, CompileShader 8,
           CreateShader FRAGMENT_SHADER (Some 9), ShaderSource 9 ''sphere.frag'',
           CompileShader 9, DeleteShader 9, DeleteShader 8]"
    by (rule emitted_append)
  moreover have "fst (initShader bad_fragment_host ''sphere'' plasma_session) = False"
    "programRef (snd (initShader bad_fragment_host ''sphere'' plasma_session)) = None"
    by (simp_all add: plasma_session_fields build_defs bad_fragment_host_def good_host_def
          catalogue_defs)
  moreover have "programRef
      (snd (step bad_fragment_host 5000 (Select ''sphere'') (initialPage, plasma_session))) = None"
    by (simp add: plasma_session_fields build_defs bad_fragment_host_def good_host_def
          catalogue_defs rerender_def commit_def handleShaderSelect_def initialPage_def
          unmountCleanup_def mountEffect_def shaderIdEffect_def handleResize_def
          createFullscreenQuad_def)
  moreover have "compile_log bad_fragment_host FRAGMENT_SHADER (fragmentSource sphereShader)
     = Some ''ERROR: 0:1: syntax error''"
    by (simp add: bad_fragment_host_def)
  ultimately show ?thesis
    by (simp add: plasma_session_fields)
qed

text \<open>
  C2, amended. \<open>initShader\<close> deletes the program that was active before it builds the new
  one. When the vertex stage compiles and the fragment stage does not, it returns false,
  hands \<open>Failed to compile fragment shader: <name>\<close> to \<open>onError\<close>, sets the error flag
  and leaves no program installed, the previous one having been deleted; a frame run
  in that state only clears to the fallback colour. A later build in which no stage
  fails installs a new program and clears the error flag.
\<close>

theorem failed_fragment_build_leaves_no_program:
  assumes "glRef s" and "getShaderById ident = Some d" and "\<not> vertex_fails h"
    and "shader_alloc h FRAGMENT_SHADER"
    and "compile_log h FRAGMENT_SHADER (fragmentSource d) = Some info"
  shows "fst (initShader h ident s) = False \<and>
    onErrorCalls (snd (initShader h ident s))
      = onErrorCalls s @ [''Failed to compile fragment shader: '' @ sname d] \<and>
    hasError (snd (initShader h ident s)) \<and>
    programRef (snd (initShader h ident s)) = None \<and>
    (\<forall>old. programRef s = Some old \<longrightarrow>
       DeleteProgram old \<in> set (emitted s (snd (initShader h ident s)))) \<and>
    emitted (snd (initShader h ident s)) (render h2 now (snd (initShader h ident s)))
      = [ClearColor 0.02 0.02 0.05 1, Clear] \<and>
    (getShaderById ident2 = Some d2 \<and> \<not> vertex_fails h2 \<and> \<not> fragment_fails h2 d2 \<and>
       \<not> link_fails h2 (next_handle (snd (initShader h ident s)))
            (Suc (next_handle (snd (initShader h ident s)))) \<longrightarrow>
     fst (initShader h2 ident2 (snd (initShader h ident s))) \<and>
     programRef (snd (initShader h2 ident2 (snd (initShader h ident s))))
       = Some (Suc (Suc (next_handle (snd (initShader h ident s))))) \<and>
     \<not> hasError (snd (initShader h2 ident2 (snd (initShader h ident s)))))"
proof -
  let ?s' = "snd (initShader h ident s)"
  have errors: "build_errors h ident s = [''Failed to compile fragment shader: '' @ sname d]"
    using assms by (simp add: build_errors_def fragment_fails_def)
  have ret: "fst (initShader h ident s) = False"
    by (simp add: initShader_result errors)
  have reported: "onErrorCalls ?s' = onErrorCalls s @ [''Failed to compile fragment shader: '' @ sname d]"
    by (simp add: initShader_onError errors)
  have flag: "hasError ?s'"
    using assms(1) by (simp add: initShader_hasError errors)
  have none: "programRef ?s' = None"
    using assms(1) by (simp add: initShader_programRef errors)
  from initShader_log [of h ident s] obtain new where
    new: "calls ?s' = calls s @ new" and
    old: "\<And>old. programRef s = Some old \<and> glRef s \<Longrightarrow> DeleteProgram old \<in> set new"
    by blast
  have "emitted s ?s' = new"
    using new by (rule emitted_append)
  with old assms(1) have deleted:
    "\<forall>old. programRef s = Some old \<longrightarrow> DeleteProgram old \<in> set (emitted s ?s')"
    by simp
  have "calls (render h2 now ?s') = calls ?s' @ [ClearColor 0.02 0.02 0.05 1, Clear]"
    by (simp add: render_with_error [OF flag])
  then have fallback: "emitted ?s' (render h2 now ?s') = [ClearColor 0.02 0.02 0.05 1, Clear]"
    by (rule emitted_append)
  have gl': "glRef ?s'"
    using assms(1) by (simp add: initShader_unchanged)
  have later: "fst (initShader h2 ident2 ?s') \<and>
     programRef (snd (initShader h2 ident2 ?s')) = Some (Suc (Suc (next_handle ?s'))) \<and>
     \<not> hasError (snd (initShader h2 ident2 ?s'))"
    if "getShaderById ident2 = Some d2" "\<not> vertex_fails h2" "\<not> fragment_fails h2 d2"
      "\<not> link_fails h2 (next_handle ?s') (Suc (next_handle ?s'))"
  proof -
    have "build_errors h2 ident2 ?s' = []"
      using that gl' by (simp add: build_errors_def)
    then show ?thesis
      using gl' by (simp add: initShader_result initShader_programRef initShader_hasError)
  qed
  from ret reported flag none deleted fallback later show ?thesis
    by blast
qed

theorem failed_fragment_build_leaves_no_program_witness:
  "glRef plasma_session \<and> getShaderById ''sphere'' = Some sphereShader \<and>
   \<not> vertex_fails bad_fragment_host \<and> shader_alloc bad_fragment_host FRAGMENT_SHADER \<and>
   compile_log bad_fragment_host FRAGMENT_SHADER (fragmentSource sphereShader)
     = Some ''ERROR: 0:1: syntax error'' \<and>
   programRef plasma_session = Some 7 \<and>
   onErrorCalls (snd (initShader bad_fragment_host ''sphere'' plasma_session))
     = [''Failed to compile fragment shader: Raymarched Sphere''] \<and>
   programRef (snd (initShader bad_fragment_host ''sphere'' plasma_session)) = None \<and>
   DeleteProgram 7
     \<in> set (emitted plasma_session (snd (initShader bad_fragment_host ''sphere'' plasma_session))) \<and>
   fst (initShader good_host ''sphere'' (snd (initShader bad_fragment_host ''sphere'' plasma_session)))"
proof -
  have found: "getShaderById ''sphere'' = Some sphereShader"
    by (simp add: catalogue_defs)
  have name: "sname sphereShader = ''Raymarched Sphere''"
    by (simp add: sphereShader_def)
  have vertex: "\<not> vertex_fails bad_fragment_host"
    by (simp add: vertex_fails_def bad_fragment_host_def good_host_def)
  have alloc: "shader_alloc bad_fragment_host FRAGMENT_SHADER"
    by (simp add: bad_fragment_host_def good_host_def)
  have log: "compile_log bad_fragment_host FRAGMENT_SHADER (fragmentSource sphereShader)
     = Some ''ERROR: 0:1: syntax error''"
    by (simp add: bad_fragment_host_def)
  have good: "\<not> vertex_fails good_host" "\<not> fragment_fails good_host sphereShader"
    "\<And>v f. \<not> link_fails good_host v f"
    by (simp_all add: vertex_fails_def fragment_fails_def link_fails_def good_host_def)
  from failed_fragment_build_leaves_no_program
         [OF plasma_session_fields(1) found vertex alloc log,
          where ?h2.0 = good_host and ?ident2.0 = "''sphere''" and ?d2.0 = sphereShader
            and now = 0]
    found good
  show ?thesis
    by (simp add: plasma_session_fields found vertex alloc log name)
qed

section \<open>What a build error carries\<close>

text \<open>
  C7, as stated, fails: the claim has the surfaced error carry the diagnostic text of the
  compiler. On a host whose compiler rejects the fragment stage with the log
  \<open>ERROR: 0:1: syntax error\<close>, the error handed to \<open>onError\<close> is
  \<open>Failed to compile fragment shader: Raymarched Sphere\<close>, which does not contain the log.
\<close>

theorem fragment_error_drops_diagnostic:
  "compile_log bad_fragment_host FRAGMENT_SHADER (fragmentSource sphereShader)
     = Some ''ERROR: 0:1: syntax error'' \<and>
   onErrorCalls (snd (initShader bad_fragment_host ''sphere'' plasma_session))
     = [''Failed to compile fragment shader: Raymarched Sphere''] \<and>
   \<not> includes_str ''Failed to compile fragment shader: Raymarched Sphere''
       ''ERROR: 0:1: syntax error''"
proof -
  have "build_errors bad_fragment_host ''sphere'' plasma_session
        = [''Failed to compile fragment shader: Raymarched Sphere'']"
    by (simp add: stage_defs plasma_session_fields bad_fragment_host_def good_host_def
          catalogue_defs)
  then have "onErrorCalls (snd (initShader bad_fragment_host ''sphere'' plasma_session))
     = [''Failed to compile fragment shader: Raymarched Sphere'']"
    by (simp add: initShader_onError plasma_session_fields)
  moreover have "\<not> includes_str ''Failed to compile fragment shader: Raymarched Sphere''
       ''ERROR: 0:1: syntax error''"
    by simp
  ultimately show ?thesis
    by (simp add: bad_fragment_host_def)
qed

text \<open>
  C7, amended. The error \<open>initShader\<close> hands to \<open>onError\<close> (at mount and at a switch
  alike, both run \<open>initShader\<close>) is a fixed message that names the stage that failed:
  \<open>Failed to compile vertex shader\<close>, \<open>Failed to compile fragment shader: <name>\<close> or
  \<open>Failed to link shader program: <name>\<close>; \<open>Shader not found: <id>\<close> when the id is not
  in the catalogue. It is the only thing reported, the result is false exactly when
  something is reported, and neither depends on the diagnostic text: rewriting every log
  of the host changes neither. The diagnostic text of the compiler or linker goes to the
  console only.
\<close>

theorem build_error_names_stage_only:
  "onErrorCalls (snd (initShader h ident s)) = onErrorCalls s @ build_errors h ident s \<and>
   fst (initShader h ident s) = (glRef s \<and> build_errors h ident s = []) \<and>
   build_errors (rewrite_logs f g h) ident s = build_errors h ident s \<and>
   onErrorCalls (snd (initShader (rewrite_logs f g h) ident s))
     = onErrorCalls (snd (initShader h ident s)) \<and>
   (glRef s \<and> getShaderById ident = Some d \<and> shader_alloc h VERTEX_SHADER \<and>
    compile_log h VERTEX_SHADER VERTEX_SHADER_SOURCE = Some info \<longrightarrow>
      console (snd (initShader h ident s)) =
        console s @ [[''Shader compilation error:'', info],
                     [''Failed to compile vertex shader'']]) \<and>
   (glRef s \<and> getShaderById ident = Some d \<and> \<not> vertex_fails h \<and>
    shader_alloc h FRAGMENT_SHADER \<and>
    compile_log h FRAGMENT_SHADER (fragmentSource d) = Some info \<longrightarrow>
      console (snd (initShader h ident s)) =
        console s @ [[''Shader compilation error:'', info],
                     [''Failed to compile fragment shader: '' @ sname d]]) \<and>
   (glRef s \<and> getShaderById ident = Some d \<and> \<not> vertex_fails h \<and> \<not> fragment_fails h d \<and>
    program_alloc h \<and> link_log h (next_handle s) (Suc (next_handle s)) = Some info \<longrightarrow>
      console (snd (initShader h ident s)) =
        console s @ [[''Program link error:'', info],
                     [''Failed to link shader program: '' @ sname d]])"
  using initShader_console_vertex [of s ident d h info]
    initShader_console_fragment [of s ident d h info]
    initShader_console_link [of s ident d h info]
  by (simp add: initShader_onError initShader_result build_errors_rewrite_logs)

theorem build_error_names_stage_only_witness:
  "glRef plasma_session \<and> getShaderById ''sphere'' = Some sphereShader \<and>
   \<not> vertex_fails bad_fragment_host \<and> shader_alloc bad_fragment_host FRAGMENT_SHADER \<and>
   compile_log bad_fragment_host FRAGMENT_SHADER (fragmentSource sphereShader)
     = Some ''ERROR: 0:1: syntax error'' \<and>
   build_errors bad_fragment_host ''sphere'' plasma_session
     = [''Failed to compile fragment shader: Raymarched Sphere''] \<and>
   onErrorCalls (snd (initShader bad_fragment_host ''sphere'' plasma_session))
     = [''Failed to compile fragment shader: Raymarched Sphere''] \<and>
   fst (initShader bad_fragment_host ''sphere'' plasma_session) = False \<and>
   console (snd (initShader bad_fragment_host ''sphere'' plasma_session))
     = [[''Shader compilation error:'', ''ERROR: 0:1: syntax error''],
        [''Failed to compile fragment shader: Raymarched Sphere'']]"
proof -
  have found: "getShaderById ''sphere'' = Some sphereShader"
    by (simp add: catalogue_defs)
  have name: "sname sphereShader = ''Raymarched Sphere''"
    by (simp add: sphereShader_def)
  have vertex: "\<not> vertex_fails bad_fragment_host"
    by (simp add: vertex_fails_def bad_fragment_host_def good_host_def)
  have alloc: "shader_alloc bad_fragment_host FRAGMENT_SHADER"
    by (simp add: bad_fragment_host_def good_host_def)
  have log: "compile_log bad_fragment_host FRAGMENT_SHADER (fragmentSource sphereShader)
     = Some ''ERROR: 0:1: syntax error''"
    by (simp add: bad_fragment_host_def)
  have errors: "build_errors bad_fragment_host ''sphere'' plasma_session
     = [''Failed to compile fragment shader: Raymarched Sphere'']"
    using found vertex alloc log
    by (simp add: build_errors_def fragment_fails_def plasma_session_fields name)
  from build_error_names_stage_only
         [of bad_fragment_host "''sphere''" plasma_session id id sphereShader
             "''ERROR: 0:1: syntax error''"]
    found vertex alloc log errors
  show ?thesis
    by (simp add: plasma_session_fields name)
qed

section \<open>The calls of a frame\<close>

lemma gl_gl [simp]: "gl b (gl a s) = gl (a @ b) s"
  by (simp add: gl_def)

lemma gl_Nil [simp]: "gl [] s = s"
  by (simp add: gl_def)

lemma gl_fields [simp]:
  "uniformsRef (gl cs s) = uniformsRef s" "canvasSize (gl cs s) = canvasSize s"
  "showDebugRef (gl cs s) = showDebugRef s" "debugCanvas (gl cs s) = debugCanvas s"
  "currentMouse (gl cs s) = currentMouse s" "targetMouse (gl cs s) = targetMouse s"
  "startTime (gl cs s) = startTime s" "hasError (gl cs s) = hasError s"
  "programRef (gl cs s) = programRef s" "vaoRef (gl cs s) = vaoRef s"
  "frameScheduled (gl cs s) = frameScheduled s" "fpsMonitor (gl cs s) = fpsMonitor s"
  "glRef (gl cs s) = glRef s" "depShaderId (gl cs s) = depShaderId s"
  by (simp_all add: gl_def)

lemma setUniform_gl:
  "setUniform h program name ty v s =
     gl (if uniform_active h program name then [uniform_call ty name v] else []) s"
  by (simp add: setUniform_def uniform_call_def split: UniformType.split)

lemma setCustomUniforms_gl:
  "setCustomUniforms h program entries s = gl (concat (map (custom_upload h program) entries)) s"
proof (induction entries arbitrary: s)
  case Nil
  then show ?case by (simp add: setCustomUniforms_def)
next
  case (Cons e entries)
  have "setCustomUniforms h program (e # entries) s =
        setCustomUniforms h program entries
          (setUniform h program (fst e) (if isInt (fst e) then UInt else UFloat) (Num (snd e)) s)"
    by (simp add: setCustomUniforms_def split: prod.split)
  also have "\<dots> = gl (concat (map (custom_upload h program) (e # entries))) s"
    by (simp add: Cons.IH setUniform_gl custom_upload_def [of h program e] uniform_call_def)
  finally show ?case .
qed

lemma drawFrame_calls:
  "calls (drawFrame h now program vao s) =
     calls s @ [ClearColor 0.02 0.02 0.05 1, Clear, UseProgram program, BindVertexArray (Some vao)]
       @ standard_uploads h now program s
       @ concat (map (custom_upload h program) (uniformsRef s))
       @ [DrawArrays 0 6, BindVertexArray None]"
  by (simp add: drawFrame_def Let_def setUniform_gl setCustomUniforms_gl standard_uploads_def
        uniform_call_def drawDebugOverlay_def)

lemma drawFrame_fields:
  "currentMouse (drawFrame h now program vao s) =
     (lerp (fst (currentMouse s)) (fst (targetMouse s)) 0.1,
      lerp (snd (currentMouse s)) (snd (targetMouse s)) 0.1)"
  "targetMouse (drawFrame h now program vao s) = targetMouse s"
  "frameScheduled (drawFrame h now program vao s)"
  "hasError (drawFrame h now program vao s) = hasError s"
  "programRef (drawFrame h now program vao s) = programRef s"
  "vaoRef (drawFrame h now program vao s) = vaoRef s"
  "glRef (drawFrame h now program vao s) = glRef s"
  "startTime (drawFrame h now program vao s) = startTime s"
  "depShaderId (drawFrame h now program vao s) = depShaderId s"
  "fpsMonitor (drawFrame h now program vao s) = updateFPSMonitor now (fpsMonitor s)"
  by (simp_all add: drawFrame_def Let_def setUniform_gl setCustomUniforms_gl drawDebugOverlay_def)

lemma render_rendering:
  "programRef s = Some program \<Longrightarrow> vaoRef s = Some vao \<Longrightarrow> \<not> hasError s \<Longrightarrow>
   render h now s = drawFrame h now program vao s"
  by (simp add: render_def)

lemma render_emitted:
  assumes "programRef s = Some program" "vaoRef s = Some vao" "\<not> hasError s"
  shows "emitted s (render h now s) =
     [ClearColor 0.02 0.02 0.05 1, Clear, UseProgram program, BindVertexArray (Some vao)]
       @ standard_uploads h now program s
       @ concat (map (custom_upload h program) (uniformsRef s))
       @ [DrawArrays 0 6, BindVertexArray None]"
  by (rule emitted_append) (simp add: render_rendering [OF assms] drawFrame_calls)

lemma uploads_of_simps [simp]:
  "uploads_of n [] = []"
  "uploads_of n (c # cs) =
     (if uniform_name c = Some n then c # uploads_of n cs else uploads_of n cs)"
  by (simp_all add: uploads_of_def)

lemma uploads_of_append [simp]: "uploads_of n (xs @ ys) = uploads_of n xs @ uploads_of n ys"
  by (simp add: uploads_of_def)

lemma uploads_of_custom:
  "uploads_of name (concat (map (custom_upload h program) entries)) =
     (if uniform_active h program name
      then map (\<lambda>e. if isInt name then Uniform1i name (Num (snd e))
                     else Uniform1f name (Num (snd e)))
             (filter (\<lambda>e. fst e = name) entries)
      else [])"
  by (induction entries) (auto simp: custom_upload_def)

lemma uploads_of_standard:
  "name \<notin> {''u_time'', ''u_resolution'', ''u_mouse''} \<Longrightarrow>
   uploads_of name (standard_uploads h now program s) = []"
  by (auto simp: standard_uploads_def)

lemma frame_uploads:
  assumes "programRef s = Some program" "vaoRef s = Some vao" "\<not> hasError s"
    and "name \<notin> {''u_time'', ''u_resolution'', ''u_mouse''}"
  shows "uploads_of name (emitted s (render h now s)) =
     (if uniform_active h program name
      then map (\<lambda>e. if isInt name then Uniform1i name (Num (snd e))
                     else Uniform1f name (Num (snd e)))
             (filter (\<lambda>e. fst e = name) (uniformsRef s))
      else [])"
  using assms(4)
  by (simp add: render_emitted [OF assms(1-3)] uploads_of_custom uploads_of_standard)

lemma with_uniforms_eq:
  "with_uniforms entries = plasma_session\<lparr>uniformsRef := entries\<rparr>"
  by (simp add: with_uniforms_def commit_def initialPage_def plasma_session_eq)

lemma with_uniforms_fields:
  "programRef (with_uniforms entries) = Some 7" "vaoRef (with_uniforms entries) = Some 0"
  "\<not> hasError (with_uniforms entries)" "uniformsRef (with_uniforms entries) = entries"
  "startTime (with_uniforms entries) = 0" "canvasSize (with_uniforms entries) = (800, 600)"
  "currentMouse (with_uniforms entries) = (0.5, 0.5)"
  "targetMouse (with_uniforms entries) = (0.5, 0.5)"
  by (simp_all add: with_uniforms_eq plasma_session_fields)

section \<open>The defaults of a shader\<close>

lemma map_of_set_key: "map_of (set_key k v l) = (map_of l)(k \<mapsto> v)"
  by (induction l) auto

lemma map_of_defaults_acc:
  "map_of (foldl (\<lambda>defaults uniform. set_key (uname uniform) (defaultValue uniform) defaults)
             acc us) =
   map_of (rev (map (\<lambda>u. (uname u, defaultValue u)) us) @ acc)"
proof (induction us arbitrary: acc)
  case Nil
  then show ?case by simp
next
  case (Cons u us)
  show ?case
    by (simp add: Cons.IH map_of_set_key map_add_def fun_eq_iff split: option.split)
qed

lemma getDefaultUniforms_lookup:
  assumes "distinct (map uname (suniforms d))" and "u \<in> set (suniforms d)"
  shows "map_of (getDefaultUniforms d) (uname u) = Some (defaultValue u)"
proof -
  let ?l = "map (\<lambda>u. (uname u, defaultValue u)) (suniforms d)"
  have "distinct (map fst (rev ?l))"
    using assms(1) by (simp add: rev_map [symmetric] comp_def)
  moreover have "(uname u, defaultValue u) \<in> set (rev ?l)"
    using assms(2) by auto
  ultimately have "map_of (rev ?l) (uname u) = Some (defaultValue u)"
    by (rule map_of_is_SomeI)
  then show ?thesis
    by (simp add: getDefaultUniforms_def map_of_defaults_acc)
qed

section \<open>Missing and unknown parameters\<close>

text \<open>
  C1, as stated, fails: the claim has the frame upload a declared parameter's
  \<open>defaultValue\<close> when the map omits its key. The plasma shader declares \<open>u_speed\<close> with
  default 1 and the program has that uniform; with the empty map, the frame uploads the
  three standard uniforms and nothing for \<open>u_speed\<close>.
\<close>

theorem missing_key_uploads_nothing:
  "getShaderById ''plasma'' = Some plasmaShader \<and>
   uname (hd (suniforms plasmaShader)) = ''u_speed'' \<and>
   defaultValue (hd (suniforms plasmaShader)) = 1 \<and>
   programRef (with_uniforms []) = Some 7 \<and>
   uniform_active good_host 7 ''u_speed'' \<and>
   uniformsRef (with_uniforms []) = [] \<and>
   emitted (with_uniforms []) (render good_host 32 (with_uniforms [])) =
     [ClearColor 0.02 0.02 0.05 1, Clear, UseProgram 7, BindVertexArray (Some 0),
      Uniform1f ''u_time'' (Num 0.032), Uniform2fv ''u_resolution'' (Arr [800, 600]),
      Uniform2fv ''u_mouse'' (Arr [0.5, 0.5]), DrawArrays 0 6, BindVertexArray None] \<and>
   uploads_of ''u_speed'' (emitted (with_uniforms []) (render good_host 32 (with_uniforms [])))
     = []"
proof -
  have frame: "emitted (with_uniforms []) (render good_host 32 (with_uniforms [])) =
     [ClearColor 0.02 0.02 0.05 1, Clear, UseProgram 7, BindVertexArray (Some 0),
      Uniform1f ''u_time'' (Num 0.032), Uniform2fv ''u_resolution'' (Arr [800, 600]),
      Uniform2fv ''u_mouse'' (Arr [0.5, 0.5]), DrawArrays 0 6, BindVertexArray None]"
    by (simp add: render_emitted [OF with_uniforms_fields(1-3)] with_uniforms_fields
          standard_uploads_def good_host_def lerp_def)
  show ?thesis
    unfolding frame
    by (simp add: with_uniforms_fields good_host_def catalogue_defs)
qed

text \<open>
  C1, amended. A frame uploads, for a parameter name, exactly the entries the supplied
  map has under that name, each with its supplied value, and only if the program has
  that uniform. So a declared parameter that the map omits is not uploaded at all (the
  render core applies no default), and an entry whose key the program does not know is
  ignored; \<open>render\<close> has no failure path. The defaults reach the canvas through its
  caller: \<open>getDefaultUniforms\<close> maps every declared parameter to its \<open>defaultValue\<close>, and
  \<open>handleShaderSelect\<close> hands that map to the canvas.
\<close>

theorem frame_uploads_supplied_entries_only:
  assumes "programRef s = Some program" and "vaoRef s = Some vao" and "\<not> hasError s"
    and "name \<notin> {''u_time'', ''u_resolution'', ''u_mouse''}"
  shows "uploads_of name (emitted s (render h now s)) =
      (if uniform_active h program name
       then map (\<lambda>e. if isInt name then Uniform1i name (Num (snd e))
                      else Uniform1f name (Num (snd e)))
              (filter (\<lambda>e. fst e = name) (uniformsRef s))
       else []) \<and>
    (name \<notin> fst ` set (uniformsRef s) \<longrightarrow> uploads_of name (emitted s (render h now s)) = []) \<and>
    (\<not> uniform_active h program name \<longrightarrow> uploads_of name (emitted s (render h now s)) = []) \<and>
    (distinct (map uname (suniforms d)) \<and> u \<in> set (suniforms d) \<longrightarrow>
       map_of (getDefaultUniforms d) (uname u) = Some (defaultValue u)) \<and>
    (getShaderById ident = Some d \<longrightarrow>
       pUniforms (handleShaderSelect ident p) = getDefaultUniforms d)"
proof -
  have absent: "filter (\<lambda>e. fst e = name) (uniformsRef s) = []"
    if "name \<notin> fst ` set (uniformsRef s)"
    using that by (auto simp: filter_empty_conv)
  show ?thesis
    using getDefaultUniforms_lookup [of d u] absent
    by (simp add: frame_uploads [OF assms] handleShaderSelect_def)
qed

theorem frame_uploads_supplied_entries_only_witness:
  "programRef (with_uniforms [(''u_speed'', 1.5)]) = Some 7 \<and>
   vaoRef (with_uniforms [(''u_speed'', 1.5)]) = Some 0 \<and>
   \<not> hasError (with_uniforms [(''u_speed'', 1.5)]) \<and>
   ''u_speed'' \<notin> {''u_time'', ''u_resolution'', ''u_mouse''} \<and>
   ''u_scale'' \<notin> fst ` set (uniformsRef (with_uniforms [(''u_speed'', 1.5)])) \<and>
   uploads_of ''u_speed''
     (emitted (with_uniforms [(''u_speed'', 1.5)])
        (render good_host 32 (with_uniforms [(''u_speed'', 1.5)])))
     = [Uniform1f ''u_speed'' (Num 1.5)] \<and>
   uploads_of ''u_scale''
     (emitted (with_uniforms [(''u_speed'', 1.5)])
        (render good_host 32 (with_uniforms [(''u_speed'', 1.5)])))
     = [] \<and>
   distinct (map uname (suniforms plasmaShader)) \<and>
   map_of (getDefaultUniforms plasmaShader) ''u_scale'' = Some 4 \<and>
   pUniforms (handleShaderSelect ''plasma'' initialPage) = getDefaultUniforms plasmaShader"
proof -
  let ?s = "with_uniforms [(''u_speed'', 1.5)]"
  have found: "getShaderById ''plasma'' = Some plasmaShader"
    by (simp add: catalogue_defs)
  have names: "distinct (map uname (suniforms plasmaShader))"
    by (simp add: plasmaShader_def)
  have member: "\<lparr>uname = ''u_scale'', ulabel = ''Scale'', utype = KFloat,
           umin = 1, umax = 10, ustep = 0.5, defaultValue = 4\<rparr> \<in> set (suniforms plasmaShader)"
    by (simp add: plasmaShader_def)
  have active: "uniform_active good_host 7 ''u_speed''"
    by (simp add: good_host_def)
  from frame_uploads_supplied_entries_only
         [OF with_uniforms_fields(1-3), of "''u_speed''" "[(''u_speed'', 1.5)]" good_host 32
            plasmaShader _ "''plasma''" initialPage]
    frame_uploads_supplied_entries_only
         [OF with_uniforms_fields(1-3), of "''u_scale''" "[(''u_speed'', 1.5)]" good_host 32
            plasmaShader
            "\<lparr>uname = ''u_scale'', ulabel = ''Scale'', utype = KFloat,
               umin = 1, umax = 10, ustep = 0.5, defaultValue = 4\<rparr>" "''plasma''" initialPage]
    found names member active
  show ?thesis
    by (simp add: with_uniforms_fields isInt_def)
qed
section \<open>Integer or float\<close>






section \<open>Pointer smoothing\<close>






section \<open>Frames while the error flag is set\<close>

lemma error_frame_clears_and_reschedules:
  assumes "hasError s"
  shows "emitted s (render h now s) = [ClearColor 0.02 0.02 0.05 1, Clear] \<and>
    frameScheduled (render h now s) \<and> hasError (render h now s)"
proof -
  have "calls (render h now s) = calls s @ [ClearColor 0.02 0.02 0.05 1, Clear]"
    by (simp add: render_with_error [OF assms])
  then have "emitted s (render h now s) = [ClearColor 0.02 0.02 0.05 1, Clear]"
    by (rule emitted_append)
  then show ?thesis
    using assms by (simp add: render_with_error [OF assms])
qed

lemma failed_switch_eq:
  "failed_switch =
     (\<lparr>pShaderId = ''sphere'', pUniforms = getDefaultUniforms sphereShader,
       pShowDebug = False,
       pError = Some ''Failed to compile fragment shader: Raymarched Sphere''\<rparr>,
      plasma_session
        \<lparr>programRef := None, vaoRef := Some 8, frameScheduled := False,
         startTime := 5000, hasError := True,
         uniformsRef := getDefaultUniforms sphereShader, depShaderId := ''sphere'',
         cleanupRegistered := False, listening := False, observing := False,
         next_handle := 14,
         calls := calls plasma_session @
           [DeleteVertexArray 0, DeleteProgram 7, Viewport 0 0 800 600,
            CreateVertexArray (Some 8), BindVertexArray (Some 8), CreateBuffer 9,
            BindBuffer 9, BufferData [- 1, - 1, 1, - 1, - 1, 1, - 1, 1, 1, - 1, 1, 1],
            EnableVertexAttribArray 0, VertexAttribPointer 0 2, BindVertexArray None,
            CreateShader VERTEX_SHADER (Some 10), ShaderSource 10 VERTEX_SHADER_SOURCE,
            CompileShader 10, CreateShader FRAGMENT_SHADER (Some 11),
            ShaderSource 11 ''sphere.frag'', CompileShader 11, DeleteShader 11,
            DeleteShader 10,
            CreateShader VERTEX_SHADER (Some 12), ShaderSource 12 VERTEX_SHADER_SOURCE,
            CompileShader 12, CreateShader FRAGMENT_SHADER (Some 13),
            ShaderSource 13 ''sphere.frag'', CompileShader 13, DeleteShader 13,
            DeleteShader 12],
         console :=
           [[''Shader compilation error:'', ''ERROR: 0:1: syntax error''],
            [''Failed to compile fragment shader: Raymarched Sphere''],
            [''Shader compilation error:'', ''ERROR: 0:1: syntax error''],
            [''Failed to compile fragment shader: Raymarched Sphere'']],
         onErrorCalls :=
           [''Failed to compile fragment shader: Raymarched Sphere'',
            ''Failed to compile fragment shader: Raymarched Sphere'']\<rparr>)"
  by (simp add: failed_switch_def plasma_session_eq build_defs bad_fragment_host_def
        good_host_def getShaderById_def SHADERS_def plasmaShader_def sphereShader_def
        rerender_def commit_def handleShaderSelect_def initialPage_def
        unmountCleanup_def mountEffect_def shaderIdEffect_def handleResize_def
        createFullscreenQuad_def)

text \<open>
  C5. On the mounted plasma session a frame is pending. Selecting the sphere shader on
  a host whose compiler rejects its fragment stage sets the error flag and leaves no
  frame pending: the cleanup of the mount effect cancelled the request and the effect,
  run again, returned before it called \<open>render\<close>. The next frame event finds nothing
  to run: no call is made, and the surface is not cleared to the fallback colour.
\<close>

theorem failed_switch_stops_loop:
  "frameScheduled plasma_session \<and> \<not> hasError plasma_session \<and>
   hasError (snd failed_switch) \<and>
   pError (fst failed_switch) = Some ''Failed to compile fragment shader: Raymarched Sphere'' \<and>
   \<not> frameScheduled (snd failed_switch) \<and>
   step good_host 5016 Frame failed_switch = failed_switch \<and>
   emitted (snd failed_switch) (snd (step good_host 5016 Frame failed_switch)) = []"
  by (simp add: failed_switch_eq plasma_session_fields emitted_def)

text \<open>
  What \<open>render\<close> does when it is run with the error flag set: it clears to the fallback
  colour, makes no other call, and requests the next frame; so does every frame after it.
\<close>

lemma error_frames_keep_running:
  assumes "hasError s" and "frameScheduled s"
  shows "frameScheduled (snd (run (map (\<lambda>now. (h, now, Frame)) ts) (p, s))) \<and>
    hasError (snd (run (map (\<lambda>now. (h, now, Frame)) ts) (p, s))) \<and>
    emitted s (snd (run (map (\<lambda>now. (h, now, Frame)) ts) (p, s)))
      = concat (replicate (length ts) [ClearColor 0.02 0.02 0.05 1, Clear])"
proof -
  have "\<exists>s'. run (map (\<lambda>now. (h, now, Frame)) ts) (p, s) = (p, s') \<and>
          frameScheduled s' \<and> hasError s' \<and>
          calls s' = calls s @ concat (replicate (length ts) [ClearColor 0.02 0.02 0.05 1, Clear])"
    using assms
  proof (induction ts arbitrary: s)
    case Nil
    then show ?case by simp
  next
    case (Cons now ts)
    let ?s1 = "render h now s"
    have s1: "hasError ?s1" "frameScheduled ?s1"
      "calls ?s1 = calls s @ [ClearColor 0.02 0.02 0.05 1, Clear]"
      using Cons.prems(1) by (simp_all add: render_with_error)
    from Cons.IH [OF s1(1,2)] obtain s' where
      "run (map (\<lambda>now. (h, now, Frame)) ts) (p, ?s1) = (p, s')"
      "frameScheduled s'" "hasError s'"
      "calls s' = calls ?s1 @ concat (replicate (length ts) [ClearColor 0.02 0.02 0.05 1, Clear])"
      by blast
    then show ?case
      using Cons.prems(2) by (simp add: s1(3))
  qed
  then obtain s' where s': "run (map (\<lambda>now. (h, now, Frame)) ts) (p, s) = (p, s')"
    "frameScheduled s'" "hasError s'"
    "calls s' = calls s @ concat (replicate (length ts) [ClearColor 0.02 0.02 0.05 1, Clear])"
    by blast
  from s'(4) have "emitted s s' = concat (replicate (length ts) [ClearColor 0.02 0.02 0.05 1, Clear])"
    by (rule emitted_append)
  with s' show ?thesis
    by simp
qed

section \<open>Selecting a shader and the time origin\<close>

lemma commit_same:
  "pShaderId p = depShaderId s \<Longrightarrow>
   commit h now p s = s\<lparr>uniformsRef := pUniforms p, showDebugRef := pShowDebug p\<rparr>"
  by (simp add: commit_def)

lemma idleFrame_fields:
  "glRef (idleFrame s) = glRef s" "vaoRef (idleFrame s) = vaoRef s"
  "currentMouse (idleFrame s) = currentMouse s" "targetMouse (idleFrame s) = targetMouse s"
  by (simp_all add: idleFrame_def)

lemma render_refs:
  "glRef (render h now s) = glRef s" "vaoRef (render h now s) = vaoRef s"
  by (simp_all add: render_def idleFrame_fields drawFrame_fields split: option.split)

lemma mountEffect_ready:
  assumes "context_ok h" and "vao_alloc h"
  shows "glRef (mountEffect h now ident s) \<and> vaoRef (mountEffect h now ident s) \<noteq> None"
  using assms
  by (simp add: mountEffect_def createFullscreenQuad_def handleResize_def Let_def
        case_prod_beta render_refs initShader_unchanged split: option.split)

lemma shaderIdEffect_startTime:
  "glRef s \<Longrightarrow> vaoRef s \<noteq> None \<Longrightarrow> startTime (shaderIdEffect h now ident s) = now"
  by (simp add: shaderIdEffect_def)

lemma commit_changed:
  assumes "pShaderId p \<noteq> depShaderId s" and "context_ok h" and "vao_alloc h"
  shows "startTime (commit h now p s) = now \<and> depShaderId (commit h now p s) = pShaderId p"
  using assms mountEffect_ready [OF assms(2,3)]
  by (simp add: commit_def Let_def shaderIdEffect_startTime)

lemma snd_rerender: "snd (rerender h now p s) = commit h now p s"
  by (simp add: rerender_def Let_def)

text \<open>
  C8, as stated, fails: the claim has every selection of the already active shader id
  reset the elapsed time. On the plasma session, mounted at time 0, selecting
  \<open>plasma\<close> at 5000 ms and again at 6000 ms leaves the time origin at 0 both times, and
  the frame at 6016 ms uploads \<open>u_time = 6.016\<close>.
\<close>

theorem reselecting_active_shader_keeps_clock:
  "depShaderId plasma_session = ''plasma'' \<and> startTime plasma_session = 0 \<and>
   startTime (snd (step good_host 5000 (Select ''plasma'') (initialPage, plasma_session))) = 0 \<and>
   startTime
     (snd (run [(good_host, 5000, Select ''plasma''), (good_host, 6000, Select ''plasma'')]
             (initialPage, plasma_session))) = 0 \<and>
   uploads_of ''u_time''
     (emitted plasma_session
        (snd (run [(good_host, 5000, Select ''plasma''), (good_host, 6000, Select ''plasma''),
                   (good_host, 6016, Frame)]
                (initialPage, plasma_session))))
     = [Uniform1f ''u_time'' (Num 6.016)]"
proof -
  have select: "step good_host now (Select ''plasma'') (p, s)
      = (p\<lparr>pShaderId := ''plasma'', pUniforms := getDefaultUniforms plasmaShader,
            pError := None\<rparr>,
         s\<lparr>uniformsRef := getDefaultUniforms plasmaShader, showDebugRef := pShowDebug p\<rparr>)"
    if "depShaderId s = ''plasma''" for now p s
    using that
    by (simp add: rerender_def Let_def commit_same handleShaderSelect_def getShaderById_def
          SHADERS_def plasmaShader_def)
  let ?s2 = "plasma_session\<lparr>uniformsRef := getDefaultUniforms plasmaShader,
                              showDebugRef := False\<rparr>"
  let ?p2 = "initialPage\<lparr>pShaderId := ''plasma'',
               pUniforms := getDefaultUniforms plasmaShader, pError := None\<rparr>"
  have dep2: "depShaderId ?s2 = ''plasma''"
    by (simp add: plasma_session_fields)
  have one: "step good_host 5000 (Select ''plasma'') (initialPage, plasma_session) = (?p2, ?s2)"
    unfolding select [OF plasma_session_fields(11)] by (simp add: initialPage_def)
  have two: "step good_host 6000 (Select ''plasma'') (?p2, ?s2) = (?p2, ?s2)"
    unfolding select [OF dep2] by (simp add: initialPage_def)
  have fields: "programRef ?s2 = Some 7" "vaoRef ?s2 = Some 0" "\<not> hasError ?s2"
    "frameScheduled ?s2" "startTime ?s2 = 0" "calls ?s2 = calls plasma_session"
    by (simp_all add: plasma_session_fields)
  have "calls (render good_host 6016 ?s2) =
        calls plasma_session @
          [ClearColor 0.02 0.02 0.05 1, Clear, UseProgram 7, BindVertexArray (Some 0)]
          @ standard_uploads good_host 6016 7 ?s2
          @ concat (map (custom_upload good_host 7) (uniformsRef ?s2))
          @ [DrawArrays 0 6, BindVertexArray None]"
    by (simp add: render_rendering [OF fields(1-3)] drawFrame_calls fields(6))
  then have frame: "emitted plasma_session (render good_host 6016 ?s2) =
          [ClearColor 0.02 0.02 0.05 1, Clear, UseProgram 7, BindVertexArray (Some 0)]
          @ standard_uploads good_host 6016 7 ?s2
          @ concat (map (custom_upload good_host 7) (uniformsRef ?s2))
          @ [DrawArrays 0 6, BindVertexArray None]"
    by (rule emitted_append)
  have time: "uploads_of ''u_time'' (emitted plasma_session (render good_host 6016 ?s2))
      = [Uniform1f ''u_time'' (Num 6.016)]"
    unfolding frame
    by (simp add: uploads_of_custom isInt_def standard_uploads_def good_host_def
          plasma_session_fields getDefaultUniforms_def plasmaShader_def custom_upload_def)
  have three: "step good_host 6016 Frame (?p2, ?s2) = (?p2, render good_host 6016 ?s2)"
    by (simp add: fields)
  have twice: "run [(good_host, 5000, Select ''plasma''), (good_host, 6000, Select ''plasma'')]
                 (initialPage, plasma_session) = (?p2, ?s2)"
    by (simp only: run.simps one two)
  have then_frame:
    "run [(good_host, 5000, Select ''plasma''), (good_host, 6000, Select ''plasma''),
          (good_host, 6016, Frame)] (initialPage, plasma_session)
       = (?p2, render good_host 6016 ?s2)"
    by (simp only: run.simps one two three)
  show ?thesis
    unfolding one twice then_frame snd_conv
    using time by (simp add: plasma_session_fields)
qed

text \<open>
  C8, amended. Selecting the shader id that is already active does not restart the
  clock: no effect of the canvas that depends on \<open>shaderId\<close> runs again, the time origin is
  unchanged and the canvas only receives the shader's default parameter values.
  Selecting another id of the catalogue resets the time origin to the time of the
  selection, when the context and the quad can be obtained.
\<close>

theorem same_id_keeps_time_origin:
  "(getShaderById ident = Some d \<and> depShaderId s = ident \<longrightarrow>
      snd (step h now (Select ident) (p, s))
        = s\<lparr>uniformsRef := getDefaultUniforms d, showDebugRef := pShowDebug p\<rparr> \<and>
      startTime (snd (step h now (Select ident) (p, s))) = startTime s) \<and>
   (getShaderById ident = Some d \<and> depShaderId s \<noteq> ident \<and> context_ok h \<and> vao_alloc h \<longrightarrow>
      startTime (snd (step h now (Select ident) (p, s))) = now \<and>
      depShaderId (snd (step h now (Select ident) (p, s))) = ident)"
proof -
  have same: "snd (step h now (Select ident) (p, s))
        = s\<lparr>uniformsRef := getDefaultUniforms d, showDebugRef := pShowDebug p\<rparr>"
    if "getShaderById ident = Some d" "depShaderId s = ident"
    using that by (simp add: snd_rerender handleShaderSelect_def commit_same)
  have other: "startTime (snd (step h now (Select ident) (p, s))) = now \<and>
      depShaderId (snd (step h now (Select ident) (p, s))) = ident"
    if "getShaderById ident = Some d" "depShaderId s \<noteq> ident" "context_ok h" "vao_alloc h"
  proof -
    let ?p = "handleShaderSelect ident p"
    have "pShaderId ?p = ident"
      using that(1) by (simp add: handleShaderSelect_def)
    with that(2) have "pShaderId ?p \<noteq> depShaderId s"
      by simp
    from commit_changed [OF this that(3,4), of now] \<open>pShaderId ?p = ident\<close>
    show ?thesis
      by (simp add: snd_rerender)
  qed
  from same other show ?thesis
    by simp
qed

theorem same_id_keeps_time_origin_witness:
  "getShaderById ''plasma'' = Some plasmaShader \<and> depShaderId plasma_session = ''plasma'' \<and>
   startTime (snd (step good_host 5000 (Select ''plasma'') (initialPage, plasma_session)))
     = startTime plasma_session \<and>
   getShaderById ''sphere'' = Some sphereShader \<and> depShaderId plasma_session \<noteq> ''sphere'' \<and>
   context_ok good_host \<and> vao_alloc good_host \<and>
   startTime (snd (step good_host 5000 (Select ''sphere'') (initialPage, plasma_session)))
     = 5000"
proof -
  have found: "getShaderById ''plasma'' = Some plasmaShader"
    "getShaderById ''sphere'' = Some sphereShader"
    by (simp_all add: catalogue_defs)
  have host: "context_ok good_host" "vao_alloc good_host"
    by (simp_all add: good_host_def)
  from same_id_keeps_time_origin
         [of "''plasma''" plasmaShader plasma_session good_host 5000 initialPage]
    same_id_keeps_time_origin
         [of "''sphere''" sphereShader plasma_session good_host 5000 initialPage]
    found host
  show ?thesis
    by (simp add: plasma_session_fields)
qed

section \<open>The smoothed pointer stays in the unit square\<close>

lemma mouse_inv_gl [simp]: "mouse_inv (gl cs s) = (mouse_inv s \<and> list_all mouse_upload_ok cs)"
  by (auto simp: mouse_inv_def)

lemma mouse_inv_update [simp]:
  "mouse_inv (s\<lparr>glRef := a1\<rparr>) = mouse_inv s"
  "mouse_inv (s\<lparr>programRef := a2\<rparr>) = mouse_inv s"
  "mouse_inv (s\<lparr>vaoRef := a3\<rparr>) = mouse_inv s"
  "mouse_inv (s\<lparr>frameScheduled := a4\<rparr>) = mouse_inv s"
  "mouse_inv (s\<lparr>startTime := a5\<rparr>) = mouse_inv s"
  "mouse_inv (s\<lparr>fpsMonitor := a6\<rparr>) = mouse_inv s"
  "mouse_inv (s\<lparr>hasError := a7\<rparr>) = mouse_inv s"
  "mouse_inv (s\<lparr>uniformsRef := a8\<rparr>) = mouse_inv s"
  "mouse_inv (s\<lparr>showDebugRef := a9\<rparr>) = mouse_inv s"
  "mouse_inv (s\<lparr>depShaderId := b1\<rparr>) = mouse_inv s"
  "mouse_inv (s\<lparr>cleanupRegistered := b2\<rparr>) = mouse_inv s"
  "mouse_inv (s\<lparr>debugCanvas := b3\<rparr>) = mouse_inv s"
  "mouse_inv (s\<lparr>listening := b4\<rparr>) = mouse_inv s"
  "mouse_inv (s\<lparr>observing := b5\<rparr>) = mouse_inv s"
  "mouse_inv (s\<lparr>canvasSize := b6\<rparr>) = mouse_inv s"
  "mouse_inv (s\<lparr>next_handle := b7\<rparr>) = mouse_inv s"
  "mouse_inv (s\<lparr>console := b8\<rparr>) = mouse_inv s"
  "mouse_inv (s\<lparr>onErrorCalls := b9\<rparr>) = mouse_inv s"
  "mouse_inv (s\<lparr>overlay := c1\<rparr>) = mouse_inv s"
  by (simp_all add: mouse_inv_def)

lemma mouse_inv_report [simp]:
  "mouse_inv (report msg s) = mouse_inv s" "mouse_inv (console_error args s) = mouse_inv s"
  by (simp_all add: report_def console_error_def)

lemma initShader_quiet_log:
  "\<exists>new. calls (snd (initShader h ident s)) = calls s @ new \<and> list_all mouse_upload_ok new"
  by (simp add: build_defs split: option.split prod.split)

lemma mouse_inv_initShader:
  "mouse_inv s \<Longrightarrow> mouse_inv (snd (initShader h ident s))"
  using initShader_quiet_log [of h ident s]
  by (auto simp: mouse_inv_def initShader_unchanged)

lemma mouse_inv_deleteCurrentProgram:
  "mouse_inv s \<Longrightarrow> mouse_inv (deleteCurrentProgram s)"
  by (simp add: deleteCurrentProgram_def split: option.split)

lemma mouse_inv_handleResize: "mouse_inv s \<Longrightarrow> mouse_inv (handleResize h s)"
  by (simp add: handleResize_def Let_def split: option.split prod.split)

lemma mouse_inv_createFullscreenQuad:
  "mouse_inv s \<Longrightarrow> mouse_inv (snd (createFullscreenQuad h s))"
  by (simp add: createFullscreenQuad_def Let_def)

lemma in_unit_lerp:
  "in_unit c \<Longrightarrow> in_unit t \<Longrightarrow> in_unit (lerp (fst c) (fst t) 0.1, lerp (snd c) (snd t) 0.1)"
  unfolding in_unit_def lerp_def fst_conv snd_conv by argo

lemma custom_uploads_ok:
  "list_all mouse_upload_ok (concat (map (custom_upload h program) entries))"
  by (induction entries) (simp_all add: custom_upload_def)

lemma mouse_inv_drawFrame:
  assumes "mouse_inv s"
  shows "mouse_inv (drawFrame h now program vao s)"
proof -
  from assms have c: "in_unit (currentMouse s)" and t: "in_unit (targetMouse s)"
    and l: "list_all mouse_upload_ok (calls s)"
    by (simp_all add: mouse_inv_def)
  have standard: "list_all mouse_upload_ok (standard_uploads h now program s)"
    using in_unit_lerp [OF c t] by (simp add: standard_uploads_def)
  show ?thesis
    using in_unit_lerp [OF c t] t l standard
    by (simp add: mouse_inv_def drawFrame_calls drawFrame_fields custom_uploads_ok)
qed

lemma mouse_inv_render: "mouse_inv s \<Longrightarrow> mouse_inv (render h now s)"
  by (simp add: render_def idleFrame_def mouse_inv_drawFrame split: option.split)

lemma mouse_inv_mountEffect: "mouse_inv s \<Longrightarrow> mouse_inv (mountEffect h now ident s)"
  by (simp add: mountEffect_def Let_def case_prod_beta mouse_inv_render mouse_inv_initShader
        mouse_inv_createFullscreenQuad mouse_inv_handleResize split: option.split)

lemma mouse_inv_unmountCleanup: "mouse_inv s \<Longrightarrow> mouse_inv (unmountCleanup s)"
  by (simp add: unmountCleanup_def Let_def mouse_inv_deleteCurrentProgram split: option.split)

lemma mouse_inv_shaderIdEffect: "mouse_inv s \<Longrightarrow> mouse_inv (shaderIdEffect h now ident s)"
  by (simp add: shaderIdEffect_def mouse_inv_initShader)

lemma mouse_inv_commit: "mouse_inv s \<Longrightarrow> mouse_inv (commit h now p s)"
  by (simp add: commit_def Let_def mouse_inv_shaderIdEffect mouse_inv_mountEffect
        mouse_inv_unmountCleanup)

lemma mouse_inv_pointer:
  "mouse_inv s \<Longrightarrow> in_unit (observed r e) \<Longrightarrow> mouse_inv (handleMouseMove r e s)"
  "mouse_inv s \<Longrightarrow> list_all (\<lambda>t. in_unit (observed r t)) (take 1 ts) \<Longrightarrow>
   mouse_inv (handleTouchMove r ts s)"
  by (auto simp: mouse_inv_def handleMouseMove_def handleTouchMove_def split: list.split)

lemma mouse_inv_step:
  "mouse_inv s \<Longrightarrow> pointer_in_unit ev \<Longrightarrow> mouse_inv (snd (step h now ev (p, s)))"
  by (cases ev)
     (simp_all add: snd_rerender mouse_inv_commit mouse_inv_render mouse_inv_pointer
        mouse_inv_handleResize)

lemma mouse_inv_run:
  "mouse_inv (snd st) \<Longrightarrow> \<forall>x \<in> set evs. pointer_in_unit (snd (snd x)) \<Longrightarrow>
   mouse_inv (snd (run evs st))"
proof (induction evs arbitrary: st)
  case Nil
  then show ?case by simp
next
  case (Cons x evs)
  obtain h now ev where x: "x = (h, now, ev)"
    by (cases x) auto
  obtain p s where st: "st = (p, s)"
    by (cases st) auto
  from Cons.prems have "mouse_inv (snd (step h now ev (p, s)))"
    by (simp add: x st mouse_inv_step)
  moreover from Cons.prems(2) have "\<forall>x \<in> set evs. pointer_in_unit (snd (snd x))"
    by simp
  ultimately have "mouse_inv (snd (run evs (step h now ev (p, s))))"
    by (rule Cons.IH)
  then show ?case
    by (simp add: x st)
qed

lemma mouse_inv_mount: "mouse_inv (mount h now p)"
proof -
  have "mouse_inv (initialSession now p)"
    by (simp add: mouse_inv_def initialSession_def in_unit_def)
  then show ?thesis
    by (simp add: mount_def mouse_inv_shaderIdEffect mouse_inv_mountEffect)
qed

text \<open>
  C10. The canvas is mounted with the smoothed pointer at (0.5, 0.5). Whatever events
  follow (frames, pointer and touch moves, resizes, shader selections, parameter
  changes), on whatever host: if every pointer and touch move is observed at a
  position in the unit square (on a canvas of positive width and height), then the
  smoothed position is in the unit square after every event, and so is every value that
  was uploaded as the \<open>u_mouse\<close> uniform.
\<close>

theorem smoothed_pointer_stays_in_unit_square:
  assumes "\<forall>x \<in> set evs. pointer_in_unit (snd (snd x))"
  shows "currentMouse (mount h0 t0 p0) = (0.5, 0.5) \<and>
    in_unit (currentMouse (snd (run evs (p0, mount h0 t0 p0)))) \<and>
    (\<forall>c \<in> set (calls (snd (run evs (p0, mount h0 t0 p0)))). mouse_upload_ok c)"
proof -
  have "mouse_inv (snd (p0, mount h0 t0 p0))"
    by (simp add: mouse_inv_mount)
  from mouse_inv_run [OF this assms]
  have "in_unit (currentMouse (snd (run evs (p0, mount h0 t0 p0))))"
    and "\<forall>c \<in> set (calls (snd (run evs (p0, mount h0 t0 p0)))). mouse_upload_ok c"
    by (simp_all add: mouse_inv_def list_all_iff)
  moreover have "currentMouse (mount h0 t0 p0) = (0.5, 0.5)"
    by (simp add: mount_def shaderIdEffect_def initShader_unchanged mountEffect_def
          createFullscreenQuad_def handleResize_def Let_def case_prod_beta render_def
          idleFrame_fields drawFrame_fields initialSession_def report_def console_error_def
          lerp_def split: option.split)
  ultimately show ?thesis
    by simp
qed

theorem smoothed_pointer_stays_in_unit_square_witness:
  "pointer_in_unit (MouseMove \<lparr>rleft = 0, rtop = 0, rwidth = 800, rheight = 600\<rparr> (800, 0)) \<and>
   pointer_in_unit Frame \<and>
   in_unit
     (currentMouse
        (snd (run [(good_host, 10,
                    MouseMove \<lparr>rleft = 0, rtop = 0, rwidth = 800, rheight = 600\<rparr> (800, 0)),
                   (good_host, 16, Frame)]
                (initialPage, mount good_host 0 initialPage)))) \<and>
   currentMouse
     (snd (run [(good_host, 10,
                 MouseMove \<lparr>rleft = 0, rtop = 0, rwidth = 800, rheight = 600\<rparr> (800, 0)),
                (good_host, 16, Frame)]
             (initialPage, mount good_host 0 initialPage))) = (0.55, 0.55)"
proof -
  let ?r = "\<lparr>rleft = 0, rtop = 0, rwidth = 800, rheight = 600\<rparr>"
  let ?evs = "[(good_host, 10, MouseMove ?r (800, 0)), (good_host, 16, Frame)]"
  have moves: "pointer_in_unit (MouseMove ?r (800, 0))" "pointer_in_unit Frame"
    by (simp_all add: observed_def in_unit_def)
  then have "\<forall>x \<in> set ?evs. pointer_in_unit (snd (snd x))"
    by simp
  from smoothed_pointer_stays_in_unit_square [OF this, of good_host 0 initialPage]
  have inside: "in_unit (currentMouse (snd (run ?evs (initialPage, mount good_host 0 initialPage))))"
    by blast
  let ?s = "handleMouseMove ?r (800, 0) plasma_session"
  have fields: "programRef ?s = Some 7" "vaoRef ?s = Some 0" "\<not> hasError ?s"
    "currentMouse ?s = (0.5, 0.5)" "targetMouse ?s = (1, 1)" "frameScheduled ?s"
    by (simp_all add: handleMouseMove_def observed_def plasma_session_fields)
  have "run ?evs (initialPage, mount good_host 0 initialPage) = (initialPage, render good_host 16 ?s)"
    by (simp add: plasma_session_def [symmetric] plasma_session_fields fields)
  moreover have "currentMouse (render good_host 16 ?s) = (0.55, 0.55)"
    by (simp add: render_rendering [OF fields(1-3)] drawFrame_fields fields lerp_def)
  ultimately have "currentMouse (snd (run ?evs (initialPage, mount good_host 0 initialPage)))
      = (0.55, 0.55)"
    by (simp only: snd_conv)
  with moves inside show ?thesis
    by blast
qed

end
